theory Spec2Isabelle
  imports Complex_Main "HOL-Library.Multiset"
begin

section \<open>Data model\<close>

text \<open>
  The prediction pipeline of \<^verbatim>\<open>pwn_fantasy_football/prediction\<close> works on polars
  data frames. A data frame is modelled as the list of its rows, a row as a record.

  A cell of a float column is either null (polars' missing value, Python's \<^verbatim>\<open>None\<close>
  after \<^verbatim>\<open>to_list()\<close>), the float NaN, or a number. Finite floats are idealised as
  real numbers: rounding error, overflow and the infinities are outside the model.
\<close>

datatype cell = Null | NaN | Num real

text \<open>
  Polars arithmetic on float columns: a null operand gives null, otherwise a NaN operand
  gives NaN. \<open>cell_mul\<close> is a float column times a scalar, \<open>cell_add\<close> the sum of two
  float columns.
\<close>

fun cell_mul :: "cell \<Rightarrow> real \<Rightarrow> cell" where
  "cell_mul Null w = Null"
| "cell_mul NaN w = NaN"
| "cell_mul (Num x) w = Num (x * w)"

fun cell_add :: "cell \<Rightarrow> cell \<Rightarrow> cell" where
  "cell_add Null y = Null"
| "cell_add x Null = Null"
| "cell_add NaN y = NaN"
| "cell_add x NaN = NaN"
| "cell_add (Num x) (Num y) = Num (x + y)"

text \<open>
  The statistical columns of the game-level frame are integer or float columns. Integer
  arithmetic in polars stays in the integer dtype and wraps around on overflow. The
  model has the signed dtypes of 32 and 64 bits, those of the statistics files and of
  polars' own inference from Python integers; narrower and unsigned integer columns are
  outside the model. \<open>wrap d x\<close> is the two's complement value of \<open>x\<close> in dtype \<open>d\<close>.
\<close>

datatype int_dtype = Int32 | Int64

fun bits :: "int_dtype \<Rightarrow> nat" where
  "bits Int32 = 32"
| "bits Int64 = 64"

definition wrap :: "int_dtype \<Rightarrow> int \<Rightarrow> int" where
  "wrap d x = (x + 2 ^ (bits d - 1)) mod 2 ^ bits d - 2 ^ (bits d - 1)"

text \<open>
  The value of a column (or of an expression over columns) in one row, with the dtype of
  the column: an integer cell is null or an integer, a float cell is a \<open>cell\<close>.
  A scalar of Python is an \<^verbatim>\<open>int\<close> or a \<^verbatim>\<open>float\<close>.
\<close>

datatype column_value = IntCol int_dtype "int option" | FloatCol cell

datatype scalar = IntW int | FloatW real

text \<open>The cast of an integer cell to float, and the value of any cell as a float cell.\<close>

fun as_float :: "int option \<Rightarrow> cell" where
  "as_float None = Null"
| "as_float (Some x) = Num (real_of_int x)"

fun as_cell :: "column_value \<Rightarrow> cell" where
  "as_cell (IntCol d v) = as_float v"
| "as_cell (FloatCol c) = c"

text \<open>
  The dtype of the sum of two integer columns is the wider of the two. An integer
  column times an integer scalar keeps the dtype of the column when the scalar fits in
  32 bits, and is a 64 bit column otherwise (a scalar beyond 64 bits is outside the
  model). An integer column times a float scalar, and any sum or product with a float
  column, is a float column.
\<close>

fun supertype :: "int_dtype \<Rightarrow> int_dtype \<Rightarrow> int_dtype" where
  "supertype Int32 Int32 = Int32"
| "supertype d1 d2 = Int64"

definition literal_dtype :: "int \<Rightarrow> int_dtype \<Rightarrow> int_dtype" where
  "literal_dtype k d = (if - (2 ^ 31) \<le> k \<and> k < 2 ^ 31 then d else Int64)"

fun col_mul :: "column_value \<Rightarrow> scalar \<Rightarrow> column_value" where
  "col_mul (IntCol d v) (IntW k) =
     IntCol (literal_dtype k d) (map_option (\<lambda>x. wrap (literal_dtype k d) (x * k)) v)"
| "col_mul (IntCol d v) (FloatW w) = FloatCol (cell_mul (as_float v) w)"
| "col_mul (FloatCol c) (IntW k) = FloatCol (cell_mul c (real_of_int k))"
| "col_mul (FloatCol c) (FloatW w) = FloatCol (cell_mul c w)"

fun col_add :: "column_value \<Rightarrow> column_value \<Rightarrow> column_value" where
  "col_add (IntCol d1 v1) (IntCol d2 v2) =
     IntCol (supertype d1 d2)
       (case v1 of None \<Rightarrow> None
        | Some x \<Rightarrow> (case v2 of None \<Rightarrow> None
                     | Some y \<Rightarrow> Some (wrap (supertype d1 d2) (x + y))))"
| "col_add (IntCol d v) (FloatCol c) = FloatCol (cell_add (as_float v) c)"
| "col_add (FloatCol c) (IntCol d v) = FloatCol (cell_add c (as_float v))"
| "col_add (FloatCol c1) (FloatCol c2) = FloatCol (cell_add c1 c2)"

text \<open>
  The columns every stage keeps: the player's identifier and name, the season and the
  position (a string column, null where the source has no position).
\<close>

record player_key =
  player_id :: string
  player_name :: string
  season :: int
  position :: "string option"

text \<open>
  A game-level row carries its cells in the statistical columns by column name. Which of
  these columns the frame has is a property of the frame (\<^verbatim>\<open>df.columns\<close>), not of a row;
  \<open>stat r c\<close> is read only for a column \<open>c\<close> of the frame.
\<close>

record game_row = player_key +
  stat :: "string \<Rightarrow> column_value"

record game_table =
  columns :: "string list"
  rows :: "game_row list"

text \<open>
  The later stages read \<^verbatim>\<open>fantasy_points\<close> through means and standard deviations, which
  polars computes in floats whatever the dtype of the column; a scored row carries the
  value as a float cell. (The sum of an integer column, which polars keeps an integer,
  is read by no stage.)
\<close>

record scored_row = player_key +
  fantasy_points :: cell

section \<open>Scoring Engine: \<^verbatim>\<open>fantasy_calculator.py\<close>\<close>

text \<open>
  \<^verbatim>\<open>FantasyPointCalculator.__init__\<close>: the standard scoring when no dictionary is given.
  The weights written \<^verbatim>\<open>4\<close>, \<^verbatim>\<open>-2\<close>, \<^verbatim>\<open>6\<close> and \<^verbatim>\<open>2\<close> are Python integers.
\<close>

definition standard_scoring :: "string \<rightharpoonup> scalar" where
  "standard_scoring = map_of
     [(''passing_yards'', FloatW 0.04),
      (''passing_tds'', IntW 4),
      (''interceptions'', IntW (-2)),
      (''rushing_yards'', FloatW 0.1),
      (''rushing_tds'', IntW 6),
      (''receptions'', FloatW 0.5),
      (''receiving_yards'', FloatW 0.1),
      (''receiving_tds'', IntW 6),
      (''fumbles_lost'', IntW (-2)),
      (''two_point_conversions'', IntW 2)]"

definition FantasyPointCalculator_init :: "(string \<rightharpoonup> scalar) option \<Rightarrow> (string \<rightharpoonup> scalar)" where
  "FantasyPointCalculator_init scoring_config =
     (case scoring_config of None \<Rightarrow> standard_scoring | Some d \<Rightarrow> d)"

text \<open>Python's \<^verbatim>\<open>d.get(k, default)\<close>.\<close>

definition dict_get :: "('k \<rightharpoonup> 'v) \<Rightarrow> 'k \<Rightarrow> 'v \<Rightarrow> 'v" where
  "dict_get d k dflt = (case d k of Some v \<Rightarrow> v | None \<Rightarrow> dflt)"

text \<open>
  One \<^verbatim>\<open>if c in df.columns: ... else: ...\<close> block of \<^verbatim>\<open>calculate_fantasy_points\<close>: the
  column times its weight, or the float literal \<^verbatim>\<open>0.0\<close> when the frame lacks the column.
\<close>

definition category_fp :: "(string \<rightharpoonup> scalar) \<Rightarrow> string list \<Rightarrow> game_row \<Rightarrow> string \<Rightarrow> scalar \<Rightarrow> column_value" where
  "category_fp scoring cols r c dflt =
     (if c \<in> set cols then col_mul (stat r c) (dict_get scoring c dflt) else FloatCol (Num 0.0))"

text \<open>
  \<^verbatim>\<open>calculate_fantasy_points\<close> on one row: the ten blocks in the source's order, then the
  sum of the ten helper columns, added from left to right. A \<^verbatim>\<open>fantasy_points\<close> column
  that the input may already have is overwritten by this sum.
\<close>

definition row_fantasy_points :: "(string \<rightharpoonup> scalar) \<Rightarrow> string list \<Rightarrow> game_row \<Rightarrow> column_value" where
  "row_fantasy_points scoring cols r =
     (let passing_fp = category_fp scoring cols r ''passing_yards'' (FloatW 0.04);
          passing_td_fp = category_fp scoring cols r ''passing_tds'' (IntW 4);
          int_fp = category_fp scoring cols r ''interceptions'' (IntW (-2));
          rushing_fp = category_fp scoring cols r ''rushing_yards'' (FloatW 0.1);
          rushing_td_fp = category_fp scoring cols r ''rushing_tds'' (IntW 6);
          rec_fp = category_fp scoring cols r ''receptions'' (FloatW 0.5);
          receiving_fp = category_fp scoring cols r ''receiving_yards'' (FloatW 0.1);
          receiving_td_fp = category_fp scoring cols r ''receiving_tds'' (IntW 6);
          fumble_fp = category_fp scoring cols r ''fumbles_lost'' (IntW (-2));
          two_pt_fp = category_fp scoring cols r ''two_point_conversions'' (IntW 2)
      in col_add (col_add (col_add (col_add (col_add (col_add (col_add (col_add (col_add
           passing_fp passing_td_fp) int_fp) rushing_fp) rushing_td_fp) rec_fp)
           receiving_fp) receiving_td_fp) fumble_fp) two_pt_fp)"

definition calculate_fantasy_points :: "(string \<rightharpoonup> scalar) \<Rightarrow> game_table \<Rightarrow> scored_row list" where
  "calculate_fantasy_points scoring df =
     map (\<lambda>r. \<lparr>player_id = player_id r, player_name = player_name r, season = season r,
               position = position r,
               fantasy_points = as_cell (row_fantasy_points scoring (columns df) r)\<rparr>)
         (rows df)"

text \<open>
  The ten statistical categories the engine knows, each with the default that the source
  passes to \<^verbatim>\<open>self.scoring.get\<close>. This list is only used to state properties.
\<close>

definition categories :: "(string \<times> scalar) list" where
  "categories =
     [(''passing_yards'', FloatW 0.04), (''passing_tds'', IntW 4), (''interceptions'', IntW (-2)),
      (''rushing_yards'', FloatW 0.1), (''rushing_tds'', IntW 6), (''receptions'', FloatW 0.5),
      (''receiving_yards'', FloatW 0.1), (''receiving_tds'', IntW 6), (''fumbles_lost'', IntW (-2)),
      (''two_point_conversions'', IntW 2)]"

section \<open>Seasonal Aggregator: \<^verbatim>\<open>FantasyPredictor.get_player_seasonal_stats\<close>\<close>

text \<open>
  The polars aggregations over one group's \<^verbatim>\<open>fantasy_points\<close> cells. They skip nulls;
  a NaN among the values makes the result NaN. \<^verbatim>\<open>pl.sum\<close> of no value is 0, \<^verbatim>\<open>pl.mean\<close>
  of no value is null. \<^verbatim>\<open>pl.std\<close> is the sample standard deviation (one delta degree of
  freedom) and is null when fewer than two values are left.
\<close>

definition nums :: "cell list \<Rightarrow> real list" where
  "nums cs = concat (map (\<lambda>c. case c of Num x \<Rightarrow> [x] | _ \<Rightarrow> []) cs)"

definition non_null :: "cell list \<Rightarrow> cell list" where
  "non_null cs = filter (\<lambda>c. c \<noteq> Null) cs"

definition pl_sum :: "cell list \<Rightarrow> cell" where
  "pl_sum cs = (if NaN \<in> set cs then NaN else Num (sum_list (nums cs)))"

definition pl_mean :: "cell list \<Rightarrow> cell" where
  "pl_mean cs =
     (if non_null cs = [] then Null
      else if NaN \<in> set cs then NaN
      else Num (sum_list (nums cs) / real (length (nums cs))))"

definition pl_std :: "cell list \<Rightarrow> cell" where
  "pl_std cs =
     (if length (non_null cs) < 2 then Null
      else if NaN \<in> set cs then NaN
      else (let xs = nums cs;
                m = sum_list xs / real (length xs)
            in Num (sqrt (sum_list (map (\<lambda>x. (x - m)\<^sup>2) xs) / real (length xs - 1)))))"

text \<open>
  \<^verbatim>\<open>pl.when(fp_std.is_null() | fp_std.is_nan()).then(0.5).otherwise(1.0 / (fp_std + 1.0))\<close>
\<close>

fun consistency_of :: "cell \<Rightarrow> cell" where
  "consistency_of Null = Num 0.5"
| "consistency_of NaN = Num 0.5"
| "consistency_of (Num s) = Num (1.0 / (s + 1.0))"

record seasonal_row = player_key +
  total_fp :: cell
  avg_fp_per_game :: cell
  games_played :: nat
  fp_std :: cell
  consistency_score :: cell

text \<open>
  \<^verbatim>\<open>group_by(["player_id", "player_name", "season", "position"])\<close>: one group per distinct
  key; a null position is a key value like any other. Polars does not fix the order of
  the groups; the model lists them by \<open>remdups\<close>, and no property below depends on
  that order unless it says so. The columns \<^verbatim>\<open>min_fp\<close> and \<^verbatim>\<open>max_fp\<close> are read by no
  later stage and are left out.
\<close>

definition key_of :: "scored_row \<Rightarrow> string \<times> string \<times> int \<times> string option" where
  "key_of r = (player_id r, player_name r, season r, position r)"

definition group_keys :: "scored_row list \<Rightarrow> (string \<times> string \<times> int \<times> string option) list" where
  "group_keys df = remdups (map key_of df)"

definition group_fp :: "scored_row list \<Rightarrow> string \<times> string \<times> int \<times> string option \<Rightarrow> cell list" where
  "group_fp df k = map fantasy_points (filter (\<lambda>r. key_of r = k) df)"

definition seasonal_of :: "scored_row list \<Rightarrow> string \<times> string \<times> int \<times> string option \<Rightarrow> seasonal_row" where
  "seasonal_of df k =
     (case k of (pid, name, yr, pos) \<Rightarrow>
        \<lparr>player_id = pid, player_name = name, season = yr, position = pos,
         total_fp = pl_sum (group_fp df k),
         avg_fp_per_game = pl_mean (group_fp df k),
         games_played = length (group_fp df k),
         fp_std = pl_std (group_fp df k),
         consistency_score = consistency_of (pl_std (group_fp df k))\<rparr>)"

definition get_player_seasonal_stats :: "scored_row list \<Rightarrow> seasonal_row list" where
  "get_player_seasonal_stats df = map (seasonal_of df) (group_keys df)"

section \<open>Trend Estimator: \<^verbatim>\<open>FantasyPredictor.calculate_trend\<close>\<close>

text \<open>
  \<^verbatim>\<open>[(s, f) for s, f in zip(seasons, avg_fp) if f is not None and not (f != f)]\<close>:
  the pairs whose average is a number.
\<close>

definition valid_data :: "(int \<times> cell) list \<Rightarrow> (int \<times> real) list" where
  "valid_data zs = concat (map (\<lambda>(s, f). case f of Num v \<Rightarrow> [(s, v)] | _ \<Rightarrow> []) zs)"

text \<open>
  The seasons are Python integers, so the test of the denominator against zero is exact.
  \<^verbatim>\<open>sort("season")\<close> is modelled by the insertion sort \<open>sort_key\<close>.
\<close>

definition calculate_trend :: "seasonal_row list \<Rightarrow> string \<Rightarrow> real" where
  "calculate_trend seasonal_df pid =
     (let player_data = filter (\<lambda>r. player_id r = pid) seasonal_df in
      if length player_data < 2 then 0.0
      else
        (let player_data = sort_key season player_data;
             seasons = map season player_data;
             avg_fp = map avg_fp_per_game player_data;
             valid = valid_data (zip seasons avg_fp)
         in if length valid < 2 then 0.0
            else
              (let seasons = map fst valid;
                   avg_fp = map snd valid;
                   n = int (length seasons);
                   sum_x = sum_list seasons;
                   sum_y = sum_list avg_fp;
                   sum_xy = sum_list (map (\<lambda>(s, f). real_of_int s * f) (zip seasons avg_fp));
                   sum_x2 = sum_list (map (\<lambda>s. s * s) seasons)
               in if n * sum_x2 - sum_x * sum_x = 0 then 0.0
                  else (real_of_int n * sum_xy - real_of_int sum_x * sum_y)
                         / real_of_int (n * sum_x2 - sum_x * sum_x))))"

section \<open>Season Predictor: \<^verbatim>\<open>FantasyPredictor.predict_player_2026\<close>\<close>

text \<open>
  The configuration, as far as the pipeline reads it. A key that the source reads with
  \<^verbatim>\<open>.get(key, default)\<close> is an optional field; \<open>get_or\<close> supplies the default.
\<close>

record config =
  cfg_scoring :: "(string \<rightharpoonup> scalar) option"
  target_season :: int
  trend_weight :: "real option"
  consistency_weight :: "real option"
  min_seasons_played :: "int option"
  position_filters :: "(string \<times> bool) list option"
  output_directory :: string
  output_format :: "string option"

definition get_or :: "'a option \<Rightarrow> 'a \<Rightarrow> 'a" where
  "get_or v dflt = (case v of Some x \<Rightarrow> x | None \<Rightarrow> dflt)"

datatype py_error = FileNotFoundError | ValueError | TypeError

text \<open>
  The dictionary that a prediction is. Four keys of the source clash with the column
  names above and carry the prefix \<open>pred_\<close> here.
\<close>

record prediction =
  pred_player_id :: string
  pred_player_name :: string
  pred_position :: string
  predicted_avg_fp_per_game :: real
  predicted_season_fp :: real
  recent_avg_fp :: cell
  pred_trend :: real
  pred_consistency_score :: real
  seasons_analyzed :: nat
  last_season :: int

text \<open>
  Python's \<^verbatim>\<open>round(x, ndigits)\<close> on the idealised reals: to the nearest multiple of
  \<open>10 ^ - ndigits\<close>, a tie going to the even one.
\<close>

definition py_round :: "real \<Rightarrow> nat \<Rightarrow> real" where
  "py_round x ndigits =
     (let s = x * 10 ^ ndigits;
          f = \<lfloor>s\<rfloor>;
          d = s - of_int f
      in of_int (if d < 1 / 2 then f else if 1 / 2 < d then f + 1
                 else if even f then f else f + 1) / 10 ^ ndigits)"

text \<open>
  \<^verbatim>\<open>recent_data = player_data.filter(pl.col("season") >= self.target_season - 3)\<close>
\<close>

definition recent_data_of :: "config \<Rightarrow> seasonal_row list \<Rightarrow> seasonal_row list" where
  "recent_data_of cfg player_data = filter (\<lambda>r. season r \<ge> target_season cfg - 3) player_data"

text \<open>
  \<^verbatim>\<open>weights = [1.0 + (i * 0.3) for i in range(n)]\<close> followed by \<^verbatim>\<open>weights.reverse()\<close>.
\<close>

definition recency_weights :: "nat \<Rightarrow> real list" where
  "recency_weights n = rev (map (\<lambda>i. 1.0 + real i * 0.3) [0..<n])"

text \<open>
  \<^verbatim>\<open>sum(f * w for f, w in zip(recent_avg_fp, weights)) / sum(weights)\<close>, the weights
  being those for the length of \<^verbatim>\<open>recent_avg_fp\<close>.
\<close>

definition weighted_avg_of :: "real list \<Rightarrow> real" where
  "weighted_avg_of recent_avg_fp' =
     (let weights = recency_weights (length recent_avg_fp')
      in sum_list (map (\<lambda>(f, w). f * w) (zip recent_avg_fp' weights)) / sum_list weights)"

text \<open>
  The function returns \<^verbatim>\<open>None\<close> (here \<open>Inr None\<close>) or the dictionary. The only operation
  in it that can raise on a frame of the expected types is \<^verbatim>\<open>round\<close> of a null mean.
  A local variable whose name is also a key of the dictionary carries a prime.
\<close>

definition predict_player_2026 :: "config \<Rightarrow> seasonal_row list \<Rightarrow> string \<Rightarrow> py_error + prediction option" where
  "predict_player_2026 cfg seasonal_df pid =
     (let player_data = filter (\<lambda>r. player_id r = pid) seasonal_df in
      if length player_data = 0 then Inr None
      else
        (let player_row = hd player_data;
             name = player_name player_row;
             position_str = (case position player_row of None \<Rightarrow> ''UNK'' | Some p \<Rightarrow> p);
             recent_data = recent_data_of cfg player_data
         in if length recent_data = 0 then Inr None
            else
              (let recent_seasons = map season recent_data;
                   recent_avg_fp' = map avg_fp_per_game recent_data;
                   valid = valid_data (zip recent_seasons recent_avg_fp')
               in if valid = [] then Inr None
                  else
                    (let recent_avg_fp' = map snd valid;
                         weighted_avg = weighted_avg_of recent_avg_fp';
                         trend = calculate_trend seasonal_df pid;
                         trend_adjustment = trend * get_or (trend_weight cfg) 0.3;
                         consistency_scores = nums (map consistency_score recent_data);
                         consistency =
                           (if consistency_scores \<noteq> []
                            then sum_list consistency_scores / real (length consistency_scores)
                            else 0.5);
                         consistency_bonus =
                           (consistency - 0.5) * get_or (consistency_weight cfg) 0.2;
                         predicted_fp = weighted_avg + trend_adjustment + consistency_bonus;
                         predicted_fp = max 0.0 predicted_fp;
                         predicted_season_fp' = predicted_fp * 17
                     in case pl_mean (map avg_fp_per_game recent_data) of
                          Null \<Rightarrow> Inl TypeError
                        | NaN \<Rightarrow>
                            Inr (Some \<lparr>pred_player_id = pid, pred_player_name = name,
                              pred_position = position_str,
                              predicted_avg_fp_per_game = py_round predicted_fp 2,
                              predicted_season_fp = py_round predicted_season_fp' 2,
                              recent_avg_fp = NaN,
                              pred_trend = py_round trend 3,
                              pred_consistency_score = py_round consistency 3,
                              seasons_analyzed = length recent_data,
                              last_season = Max (set (map season recent_data))\<rparr>)
                        | Num m \<Rightarrow>
                            Inr (Some \<lparr>pred_player_id = pid, pred_player_name = name,
                              pred_position = position_str,
                              predicted_avg_fp_per_game = py_round predicted_fp 2,
                              predicted_season_fp = py_round predicted_season_fp' 2,
                              recent_avg_fp = Num (py_round m 2),
                              pred_trend = py_round trend 3,
                              pred_consistency_score = py_round consistency 3,
                              seasons_analyzed = length recent_data,
                              last_season = Max (set (map season recent_data))\<rparr>)))))"

section \<open>Prediction Orchestrator: \<^verbatim>\<open>FantasyPredictor.predict_all_players\<close>\<close>

text \<open>
  \<^verbatim>\<open>FantasyPredictor.__init__\<close> builds the calculator from
  \<^verbatim>\<open>self.config.get("scoring", {})\<close>; \<^verbatim>\<open>load_player_stats\<close> raises when the file of
  game-level statistics is missing and scores the frame otherwise. The position column
  is a string column in the model, so its normalisation there changes nothing.
\<close>

definition predictor_calculator :: "config \<Rightarrow> (string \<rightharpoonup> scalar)" where
  "predictor_calculator cfg = FantasyPointCalculator_init (Some (get_or (cfg_scoring cfg) Map.empty))"

definition load_player_stats :: "config \<Rightarrow> game_table option \<Rightarrow> py_error + scored_row list" where
  "load_player_stats cfg stats_file =
     (case stats_file of
        None \<Rightarrow> Inl FileNotFoundError
      | Some df \<Rightarrow> Inr (calculate_fantasy_points (predictor_calculator cfg) df))"

text \<open>
  \<^verbatim>\<open>seasonal_df.group_by("player_id").agg([pl.count().alias("season_count")])\<close> and the
  filter \<^verbatim>\<open>season_count >= min_seasons\<close>. Polars does not fix the order in which the
  players come out of the grouping; the model lists them by \<open>remdups\<close>, and the
  properties of the loop and of the sort below are stated for every list of players
  and every frame of predictions.
\<close>

definition season_count :: "seasonal_row list \<Rightarrow> string \<Rightarrow> nat" where
  "season_count seasonal_df pid = length (filter (\<lambda>r. player_id r = pid) seasonal_df)"

definition eligible_by_seasons :: "int \<Rightarrow> seasonal_row list \<Rightarrow> string list" where
  "eligible_by_seasons min_seasons seasonal_df =
     filter (\<lambda>pid. int (season_count seasonal_df pid) \<ge> min_seasons)
       (remdups (map player_id seasonal_df))"

definition eligible_players :: "config \<Rightarrow> seasonal_row list \<Rightarrow> string list" where
  "eligible_players cfg seasonal_df =
     (let min_seasons = get_or (min_seasons_played cfg) 2;
          eligible = eligible_by_seasons min_seasons seasonal_df;
          filters = get_or (position_filters cfg) []
      in if list_ex snd filters
         then
           (let allowed_positions = map fst (filter snd filters)
            in remdups (map player_id (filter
                 (\<lambda>r. player_id r \<in> set eligible
                       \<and> (case position r of None \<Rightarrow> False | Some p \<Rightarrow> p \<in> set allowed_positions))
                 seasonal_df)))
         else eligible)"

text \<open>
  The loop over the eligible players with its \<^verbatim>\<open>try\<close>/\<^verbatim>\<open>except Exception\<close>: a player
  whose prediction raises, or is \<^verbatim>\<open>None\<close>, is passed over. The predictor is a parameter,
  so that the loop is defined for a predictor that raises as well.
\<close>

fun predict_loop :: "(string \<Rightarrow> py_error + prediction option) \<Rightarrow> string list \<Rightarrow> prediction list" where
  "predict_loop predict [] = []"
| "predict_loop predict (pid # rest) =
     (case predict pid of
        Inl e \<Rightarrow> predict_loop predict rest
      | Inr None \<Rightarrow> predict_loop predict rest
      | Inr (Some prediction) \<Rightarrow> prediction # predict_loop predict rest)"

text \<open>The loop and \<^verbatim>\<open>if not predictions: raise ValueError(...)\<close>.\<close>

definition run_predictions :: "(string \<Rightarrow> py_error + prediction option) \<Rightarrow> string list \<Rightarrow> py_error + prediction list" where
  "run_predictions predict eligible =
     (let predictions = predict_loop predict eligible
      in if predictions = [] then Inl ValueError else Inr predictions)"

text \<open>
  \<^verbatim>\<open>predictions_df.sort("predicted_season_fp", descending=True)\<close>. Polars sorts a frame by
  one column through a stable argsort of that column, with the comparison reversed when
  descending: rows with equal keys keep the order they have in the frame. The model is
  the stable insertion sort \<open>sort_key\<close> of the rows by the negated key.
\<close>

definition pl_sort_descending :: "('a \<Rightarrow> real) \<Rightarrow> 'a list \<Rightarrow> 'a list" where
  "pl_sort_descending key xs = sort_key (\<lambda>x. - key x) xs"

text \<open>
  \<^verbatim>\<open>predict_all_players\<close> from the seasonal frame on: \<open>predict_seasonal cfg seasonal_df res\<close>
  says that \<open>res\<close> is the outcome of the run, \<open>Inl\<close> the error raised, \<open>Inr\<close> the frame
  returned. \<open>predict_all_players\<close> is the whole method, from the file of game-level rows.
\<close>

definition predict_seasonal :: "config \<Rightarrow> seasonal_row list \<Rightarrow> py_error + prediction list \<Rightarrow> bool" where
  "predict_seasonal cfg seasonal_df res =
     (case run_predictions (predict_player_2026 cfg seasonal_df) (eligible_players cfg seasonal_df) of
        Inl e \<Rightarrow> res = Inl e
      | Inr predictions \<Rightarrow> res = Inr (pl_sort_descending predicted_season_fp predictions))"

definition predict_all_players :: "config \<Rightarrow> game_table option \<Rightarrow> py_error + prediction list \<Rightarrow> bool" where
  "predict_all_players cfg stats_file res =
     (case load_player_stats cfg stats_file of
        Inl e \<Rightarrow> res = Inl e
      | Inr df \<Rightarrow> predict_seasonal cfg (get_player_seasonal_stats df) res)"

section \<open>Persistence: \<^verbatim>\<open>FantasyPredictor.save_predictions\<close>\<close>

text \<open>
  The file system is a log of the operations done on it. Paths are strings; the
  operations themselves are taken to succeed.
\<close>

datatype io_event =
    Mkdir string
  | WriteParquet string "prediction list"
  | WriteCsv string "prediction list"
  | WriteJson string "prediction list"

definition save_predictions :: "config \<Rightarrow> prediction list \<Rightarrow> io_event list \<Rightarrow> io_event list \<times> (py_error + string)" where
  "save_predictions cfg predictions_df fs =
     (let output_dir = output_directory cfg;
          fs = fs @ [Mkdir output_dir];
          fmt = get_or (output_format cfg) ''parquet'';
          output_path = output_dir @ ''/predictions_2026.'' @ fmt
      in if fmt = ''parquet'' then (fs @ [WriteParquet output_path predictions_df], Inr output_path)
         else if fmt = ''csv'' then (fs @ [WriteCsv output_path predictions_df], Inr output_path)
         else (fs @ [WriteJson output_path predictions_df], Inr output_path))"

section \<open>Notions used to state the properties\<close>

text \<open>The number in a cell; only applied to cells known to hold one.\<close>

definition the_num :: "cell \<Rightarrow> real" where
  "the_num c = (case c of Num v \<Rightarrow> v | _ \<Rightarrow> 0)"

text \<open>
  A cell of a statistical column is null, or it is a number (an integer, or a float that
  is not NaN), or it is NaN. \<open>value_of\<close> is the number in a cell that holds one, and
  \<open>scalar_value\<close> the number that a Python scalar is.
\<close>

fun is_null :: "column_value \<Rightarrow> bool" where
  "is_null (IntCol d v) = (v = None)"
| "is_null (FloatCol c) = (c = Null)"

fun is_number :: "column_value \<Rightarrow> bool" where
  "is_number (IntCol d v) = (v \<noteq> None)"
| "is_number (FloatCol c) = (c \<noteq> Null \<and> c \<noteq> NaN)"

definition value_of :: "column_value \<Rightarrow> real" where
  "value_of v = the_num (as_cell v)"

fun scalar_value :: "scalar \<Rightarrow> real" where
  "scalar_value (IntW k) = real_of_int k"
| "scalar_value (FloatW w) = w"

text \<open>
  The weighted sum over the categories whose column the frame has, each weight read from
  the scoring dictionary with the category's default.
\<close>

definition weighted_sum :: "(string \<rightharpoonup> scalar) \<Rightarrow> string list \<Rightarrow> game_row \<Rightarrow> real" where
  "weighted_sum scoring cols r =
     (\<Sum>cd\<leftarrow>filter (\<lambda>cd. fst cd \<in> set cols) categories.
        value_of (stat r (fst cd)) * scalar_value (dict_get scoring (fst cd) (snd cd)))"

text \<open>
  Integer arithmetic happens where an integer column meets an integer weight.
  \<open>int_product v w\<close> is the size of such a product (0 for any other pairing), \<open>int_load\<close>
  the sum of these sizes over the categories of the frame, and \<open>in_range n v w\<close> says that
  \<open>n\<close> is within the dtype of the product of \<open>v\<close> and \<open>w\<close> when that is an integer dtype.
\<close>

fun int_product :: "column_value \<Rightarrow> scalar \<Rightarrow> int" where
  "int_product (IntCol d (Some x)) (IntW k) = \<bar>x * k\<bar>"
| "int_product v w = 0"

definition int_load :: "(string \<rightharpoonup> scalar) \<Rightarrow> string list \<Rightarrow> game_row \<Rightarrow> int" where
  "int_load scoring cols r =
     (\<Sum>cd\<leftarrow>filter (\<lambda>cd. fst cd \<in> set cols) categories.
        int_product (stat r (fst cd)) (dict_get scoring (fst cd) (snd cd)))"

fun in_range :: "int \<Rightarrow> column_value \<Rightarrow> scalar \<Rightarrow> bool" where
  "in_range n (IntCol d v) (IntW k) = (n < 2 ^ (bits (literal_dtype k d) - 1))"
| "in_range n v w = True"

text \<open>
  For the proofs: \<open>fits n v\<close> says that \<open>v\<close> is a number and that \<open>n\<close> is within the dtype of
  \<open>v\<close> when that is an integer dtype; \<open>magnitude v\<close> is the size of an integer value.
\<close>

definition fits :: "int \<Rightarrow> column_value \<Rightarrow> bool" where
  "fits n v = (is_number v \<and> (case v of IntCol d x \<Rightarrow> n < 2 ^ (bits d - 1) | FloatCol c \<Rightarrow> True))"

fun magnitude :: "column_value \<Rightarrow> int" where
  "magnitude (IntCol d (Some x)) = \<bar>x\<bar>"
| "magnitude v = 0"

text \<open>The cells of an example row, from a list of column names and cells.\<close>

definition cells_of :: "(string \<times> column_value) list \<Rightarrow> string \<Rightarrow> column_value" where
  "cells_of kvs c = (case map_of kvs c of Some v \<Rightarrow> v | None \<Rightarrow> FloatCol Null)"

text \<open>
  The valid (season, average) pairs of a player, in the order of the frame, and the
  closed form of the least-squares slope over a list of points:
  \<open>(n \<Sum>xy - \<Sum>x \<Sum>y) / (n \<Sum>x\<^sup>2 - (\<Sum>x)\<^sup>2)\<close>.
\<close>

definition player_pairs :: "seasonal_row list \<Rightarrow> string \<Rightarrow> (int \<times> real) list" where
  "player_pairs seasonal_df pid =
     valid_data (map (\<lambda>r. (season r, avg_fp_per_game r))
                     (filter (\<lambda>r. player_id r = pid) seasonal_df))"

definition ols_denominator :: "(int \<times> real) list \<Rightarrow> real" where
  "ols_denominator ps =
     real (length ps) * (\<Sum>(x, y)\<leftarrow>ps. real_of_int x * real_of_int x)
       - (\<Sum>(x, y)\<leftarrow>ps. real_of_int x) * (\<Sum>(x, y)\<leftarrow>ps. real_of_int x)"

definition ols_slope :: "(int \<times> real) list \<Rightarrow> real" where
  "ols_slope ps =
     (real (length ps) * (\<Sum>(x, y)\<leftarrow>ps. real_of_int x * y)
        - (\<Sum>(x, y)\<leftarrow>ps. real_of_int x) * (\<Sum>(x, y)\<leftarrow>ps. y))
       / ols_denominator ps"

text \<open>A seasonal summary for examples: only the player, the season and the average vary.\<close>

definition example_summary :: "string \<Rightarrow> int \<Rightarrow> cell \<Rightarrow> seasonal_row" where
  "example_summary pid yr avg =
     \<lparr>player_id = pid, player_name = ''Player'', season = yr, position = Some ''RB'',
      total_fp = Null, avg_fp_per_game = avg, games_played = 16, fp_std = Null,
      consistency_score = Num 0.5\<rparr>"

text \<open>A scored game row and a configuration for examples.\<close>

definition example_game :: "string \<Rightarrow> int \<Rightarrow> string \<Rightarrow> cell \<Rightarrow> scored_row" where
  "example_game pid yr pos fp =
     \<lparr>player_id = pid, player_name = ''Player'', season = yr, position = Some pos,
      fantasy_points = fp\<rparr>"

definition example_config :: config where
  "example_config =
     \<lparr>cfg_scoring = None, target_season = 2026, trend_weight = None, consistency_weight = None,
      min_seasons_played = None, position_filters = None, output_directory = ''output'',
      output_format = None\<rparr>"

text \<open>
  The predictions that survive the loop, written without recursion: for each eligible
  player in turn, the dictionary the predictor returned, if it returned one.
\<close>

definition surviving :: "(string \<Rightarrow> py_error + prediction option) \<Rightarrow> string list \<Rightarrow> prediction list" where
  "surviving predict eligible =
     concat (map (\<lambda>pid. case predict pid of Inr (Some p) \<Rightarrow> [p] | _ \<Rightarrow> []) eligible)"

text \<open>
  Example frames of seasonal summaries: two players with the same history, and two
  players of whom the second scores more. \<open>example_prediction pid\<close> is what the Season
  Predictor returns for a player with averages 10 and 12 in 2024 and 2025,
  \<open>example_prediction_P2\<close> what it returns for averages 14 and 15. \<open>example_predict\<close> is a
  predictor that raises for one player and returns \<^verbatim>\<open>None\<close> for another.
\<close>

definition two_players :: "seasonal_row list" where
  "two_players =
     [example_summary ''P1'' 2024 (Num 10), example_summary ''P1'' 2025 (Num 12),
      example_summary ''P2'' 2024 (Num 10), example_summary ''P2'' 2025 (Num 12)]"

definition ranked_players :: "seasonal_row list" where
  "ranked_players =
     [example_summary ''P1'' 2024 (Num 10), example_summary ''P1'' 2025 (Num 12),
      example_summary ''P2'' 2024 (Num 14), example_summary ''P2'' 2025 (Num 15)]"

definition example_prediction :: "string \<Rightarrow> prediction" where
  "example_prediction pid =
     \<lparr>pred_player_id = pid, pred_player_name = ''Player'', pred_position = ''RB'',
      predicted_avg_fp_per_game = 11.47, predicted_season_fp = 194.98, recent_avg_fp = Num 11,
      pred_trend = 2, pred_consistency_score = 0.5, seasons_analyzed = 2, last_season = 2025\<rparr>"

definition example_prediction_P2 :: prediction where
  "example_prediction_P2 =
     \<lparr>pred_player_id = ''P2'', pred_player_name = ''Player'', pred_position = ''RB'',
      predicted_avg_fp_per_game = 14.73, predicted_season_fp = 250.49, recent_avg_fp = Num 14.5,
      pred_trend = 1, pred_consistency_score = 0.5, seasons_analyzed = 2, last_season = 2025\<rparr>"

definition example_predict :: "string \<Rightarrow> py_error + prediction option" where
  "example_predict pid =
     (if pid = ''bad'' then Inl TypeError
      else if pid = ''none'' then Inr None
      else Inr (Some (example_prediction pid)))"

section \<open>Scoring Engine: properties\<close>

lemma wrap_id:
  assumes "\<bar>x\<bar> < 2 ^ (bits d - 1)"
  shows "wrap d x = x"
  using assms by (cases d) (simp_all add: wrap_def)

lemma bits_supertype: "bits d1 \<le> bits (supertype d1 d2)" "bits d2 \<le> bits (supertype d1 d2)"
  by (cases d1; cases d2; simp)+

lemma power_bits_mono:
  assumes "bits d \<le> bits d'"
  shows "(2::int) ^ (bits d - 1) \<le> 2 ^ (bits d' - 1)"
  using assms by (intro power_increasing) auto

lemma magnitude_nonneg: "0 \<le> magnitude v"
proof (cases v)
  case (IntCol d x)
  then show ?thesis by (cases x) auto
next
  case (FloatCol c)
  then show ?thesis by simp
qed

lemma as_cell_Null: "as_cell v = Null \<longleftrightarrow> is_null v"
proof (cases v)
  case (IntCol d x)
  then show ?thesis by (cases x) auto
next
  case (FloatCol c)
  then show ?thesis by simp
qed

lemma as_cell_number:
  assumes "is_number v"
  shows "as_cell v = Num (value_of v)"
proof (cases v)
  case (IntCol d x)
  with assms show ?thesis by (cases x) (auto simp: value_of_def the_num_def)
next
  case (FloatCol c)
  with assms show ?thesis by (cases c) (auto simp: value_of_def the_num_def)
qed

lemma cell_mul_Null: "cell_mul c w = Null \<longleftrightarrow> c = Null"
  by (cases c) auto

lemma cell_add_Null: "cell_add x y = Null \<longleftrightarrow> x = Null \<or> y = Null"
  by (cases x; cases y) auto

lemma as_float_Null: "as_float x = Null \<longleftrightarrow> x = None"
  by (cases x) auto

lemma col_mul_null: "is_null (col_mul v w) \<longleftrightarrow> is_null v"
  by (cases v; cases w) (auto simp: cell_mul_Null as_float_Null)

lemma col_add_null: "is_null (col_add u v) \<longleftrightarrow> is_null u \<or> is_null v"
  by (cases u; cases v) (auto simp: cell_add_Null as_float_Null split: option.splits)

lemma category_fp_null:
  "is_null (category_fp scoring cols r c d) \<longleftrightarrow> c \<in> set cols \<and> is_null (stat r c)"
  by (simp add: category_fp_def col_mul_null)

lemma row_fantasy_points_null:
  "is_null (row_fantasy_points scoring cols r)
     \<longleftrightarrow> (\<exists>c \<in> set (map fst categories). c \<in> set cols \<and> is_null (stat r c))"
  unfolding row_fantasy_points_def Let_def col_add_null category_fp_null
  by (simp add: categories_def disj_ac)

lemma col_mul_fits:
  assumes "is_number v" and "in_range n v w" and "int_product v w \<le> n"
  shows "fits n (col_mul v w) \<and> value_of (col_mul v w) = value_of v * scalar_value w
           \<and> magnitude (col_mul v w) = int_product v w"
proof (cases v)
  case (FloatCol c)
  with assms(1) obtain x where "c = Num x" by (cases c) auto
  with FloatCol show ?thesis
    by (cases w) (auto simp: fits_def value_of_def the_num_def)
next
  case (IntCol d xo)
  with assms(1) obtain x where x: "xo = Some x" by (cases xo) auto
  show ?thesis
  proof (cases w)
    case (FloatW f)
    with IntCol x show ?thesis by (auto simp: fits_def value_of_def the_num_def)
  next
    case (IntW k)
    from assms(2,3) IntCol x IntW have "\<bar>x * k\<bar> < 2 ^ (bits (literal_dtype k d) - 1)"
      by simp
    then have "wrap (literal_dtype k d) (x * k) = x * k" by (rule wrap_id)
    with assms(2) IntCol x IntW show ?thesis
      by (auto simp: fits_def value_of_def the_num_def)
  qed
qed

lemma col_add_fits:
  assumes "fits n u" and "fits n v" and "magnitude u + magnitude v \<le> n"
  shows "fits n (col_add u v) \<and> value_of (col_add u v) = value_of u + value_of v
           \<and> magnitude (col_add u v) \<le> magnitude u + magnitude v"
proof (cases u)
  case u: (FloatCol c1)
  with assms(1) obtain x where x: "c1 = Num x" by (cases c1) (auto simp: fits_def)
  show ?thesis
  proof (cases v)
    case (FloatCol c2)
    with assms(2) obtain y where "c2 = Num y" by (cases c2) (auto simp: fits_def)
    with u x FloatCol show ?thesis by (auto simp: fits_def value_of_def the_num_def)
  next
    case (IntCol d yo)
    with assms(2) obtain y where "yo = Some y" by (cases yo) (auto simp: fits_def)
    with u x IntCol show ?thesis by (auto simp: fits_def value_of_def the_num_def)
  qed
next
  case u: (IntCol d1 xo)
  with assms(1) obtain x where x: "xo = Some x" by (cases xo) (auto simp: fits_def)
  show ?thesis
  proof (cases v)
    case (FloatCol c2)
    with assms(2) obtain y where "c2 = Num y" by (cases c2) (auto simp: fits_def)
    with u x FloatCol show ?thesis by (auto simp: fits_def value_of_def the_num_def)
  next
    case (IntCol d2 yo)
    with assms(2) obtain y where y: "yo = Some y" by (cases yo) (auto simp: fits_def)
    from assms(1) u have n1: "n < 2 ^ (bits d1 - 1)" by (simp add: fits_def)
    have n: "n < 2 ^ (bits (supertype d1 d2) - 1)"
      using n1 power_bits_mono [OF bits_supertype(1) [of d1 d2]] by linarith
    from assms(3) u x IntCol y have "\<bar>x + y\<bar> \<le> n" by simp
    with n have "\<bar>x + y\<bar> < 2 ^ (bits (supertype d1 d2) - 1)" by linarith
    then have w: "wrap (supertype d1 d2) (x + y) = x + y" by (rule wrap_id)
    show ?thesis
      using u x IntCol y n w by (auto simp: fits_def value_of_def the_num_def)
  qed
qed

lemma foldl_col_add_fits:
  assumes "fits n a" and "\<forall>t \<in> set ts. fits n t"
    and "magnitude a + sum_list (map magnitude ts) \<le> n"
  shows "fits n (foldl col_add a ts)
       \<and> value_of (foldl col_add a ts) = value_of a + sum_list (map value_of ts)
       \<and> magnitude (foldl col_add a ts) \<le> magnitude a + sum_list (map magnitude ts)"
  using assms
proof (induction ts arbitrary: a)
  case Nil
  then show ?case by simp
next
  case (Cons t ts)
  have nn: "0 \<le> sum_list (map magnitude ts)"
    by (rule sum_list_nonneg) (auto simp: magnitude_nonneg)
  have t: "fits n t" using Cons.prems(2) by simp
  have le: "magnitude a + magnitude t \<le> n" using Cons.prems(3) nn by simp
  note step = col_add_fits [OF Cons.prems(1) t le]
  have "magnitude (col_add a t) + sum_list (map magnitude ts) \<le> n"
    using step Cons.prems(3) by simp
  from Cons.IH [OF conjunct1 [OF step] _ this] Cons.prems(2)
  have "fits n (foldl col_add (col_add a t) ts)
       \<and> value_of (foldl col_add (col_add a t) ts) = value_of (col_add a t) + sum_list (map value_of ts)
       \<and> magnitude (foldl col_add (col_add a t) ts) \<le> magnitude (col_add a t) + sum_list (map magnitude ts)"
    by simp
  with step show ?case by simp
qed

lemma sum_list_filter_if:
  fixes f :: "'a \<Rightarrow> 'b::comm_monoid_add"
  shows "sum_list (map f (filter P xs)) = sum_list (map (\<lambda>x. if P x then f x else 0) xs)"
  by (induction xs) auto

lemma member_le_sum_list_int:
  fixes f :: "'a \<Rightarrow> int"
  assumes "\<forall>x \<in> set xs. 0 \<le> f x" and "y \<in> set xs"
  shows "f y \<le> sum_list (map f xs)"
  using assms
proof (induction xs)
  case Nil
  then show ?case by simp
next
  case (Cons x xs)
  have "0 \<le> sum_list (map f xs)"
    using Cons.prems(1) by (intro sum_list_nonneg) auto
  with Cons show ?case by auto
qed

lemma int_product_nonneg: "0 \<le> int_product v w"
  by (cases "(v, w)" rule: int_product.cases) auto

lemma row_fantasy_points_foldl:
  "row_fantasy_points scoring cols r
     = foldl col_add (category_fp scoring cols r (fst (hd categories)) (snd (hd categories)))
         (map (\<lambda>cd. category_fp scoring cols r (fst cd) (snd cd)) (tl categories))"
  by (simp add: row_fantasy_points_def categories_def)

lemma row_fantasy_points_number:
  assumes "\<forall>cd \<in> set categories. fst cd \<in> set cols \<longrightarrow>
             is_number (stat r (fst cd))
             \<and> in_range (int_load scoring cols r) (stat r (fst cd)) (dict_get scoring (fst cd) (snd cd))"
  shows "as_cell (row_fantasy_points scoring cols r) = Num (weighted_sum scoring cols r)"
proof -
  let ?L = "int_load scoring cols r"
  let ?cat = "\<lambda>cd. category_fp scoring cols r (fst cd) (snd cd)"
  let ?tv = "\<lambda>cd. if fst cd \<in> set cols
                   then value_of (stat r (fst cd)) * scalar_value (dict_get scoring (fst cd) (snd cd))
                   else 0"
  let ?tl = "\<lambda>cd. if fst cd \<in> set cols
                   then int_product (stat r (fst cd)) (dict_get scoring (fst cd) (snd cd))
                   else 0"
  have L: "?L = sum_list (map ?tl categories)"
    unfolding int_load_def by (rule sum_list_filter_if)
  have W: "weighted_sum scoring cols r = sum_list (map ?tv categories)"
    unfolding weighted_sum_def by (rule sum_list_filter_if)
  have tl_le: "?tl cd \<le> ?L" if "cd \<in> set categories" for cd
    unfolding L using that by (intro member_le_sum_list_int) (auto simp: int_product_nonneg)
  have tm: "fits ?L (?cat cd) \<and> value_of (?cat cd) = ?tv cd \<and> magnitude (?cat cd) = ?tl cd"
    if cd: "cd \<in> set categories" for cd
  proof (cases "fst cd \<in> set cols")
    case True
    with assms cd have "is_number (stat r (fst cd))"
      and "in_range ?L (stat r (fst cd)) (dict_get scoring (fst cd) (snd cd))"
      by blast+
    moreover from tl_le [OF cd] True
    have "int_product (stat r (fst cd)) (dict_get scoring (fst cd) (snd cd)) \<le> ?L" by simp
    ultimately show ?thesis
      using col_mul_fits [of "stat r (fst cd)" ?L "dict_get scoring (fst cd) (snd cd)"] True
      by (simp add: category_fp_def)
  next
    case False
    then show ?thesis
      by (simp add: category_fp_def fits_def value_of_def the_num_def)
  qed
  have ne: "categories \<noteq> []" by (simp add: categories_def)
  then have split: "categories = hd categories # tl categories" by simp
  have hd_in: "hd categories \<in> set categories" using ne by simp
  have tl_in: "set (tl categories) \<subseteq> set categories" using ne by (metis list.set_sel(2) subsetI)
  have mags: "map magnitude (map ?cat (tl categories)) = map ?tl (tl categories)"
    using tm tl_in by (auto simp: subset_iff)
  have vals: "map value_of (map ?cat (tl categories)) = map ?tv (tl categories)"
    using tm tl_in by (auto simp: subset_iff)
  have sumL: "magnitude (?cat (hd categories)) + sum_list (map magnitude (map ?cat (tl categories))) = ?L"
    unfolding mags L using tm [OF hd_in] by (subst (3) split) simp
  have fa: "fits ?L (?cat (hd categories))"
    using tm [OF hd_in] by (rule conjunct1)
  have fb: "\<forall>t \<in> set (map ?cat (tl categories)). fits ?L t"
  proof
    fix t assume "t \<in> set (map ?cat (tl categories))"
    then obtain cd where "cd \<in> set (tl categories)" and t: "t = ?cat cd" by auto
    with tl_in have "cd \<in> set categories" by blast
    from tm [OF this] t show "fits ?L t" by simp
  qed
  have fc: "magnitude (?cat (hd categories)) + sum_list (map magnitude (map ?cat (tl categories))) \<le> ?L"
    using sumL by simp
  note fold = foldl_col_add_fits [OF fa fb fc]
  have f: "fits ?L (row_fantasy_points scoring cols r)"
    unfolding row_fantasy_points_foldl using fold by (rule conjunct1)
  have "value_of (row_fantasy_points scoring cols r)
          = value_of (?cat (hd categories)) + sum_list (map value_of (map ?cat (tl categories)))"
    unfolding row_fantasy_points_foldl using fold by blast
  also have "value_of (?cat (hd categories)) = ?tv (hd categories)"
    using tm [OF hd_in] by blast
  finally have v: "value_of (row_fantasy_points scoring cols r)
              = ?tv (hd categories) + sum_list (map ?tv (tl categories))"
    unfolding vals .
  have "?tv (hd categories) + sum_list (map ?tv (tl categories)) = sum_list (map ?tv categories)"
    by (subst (3) split) simp
  with v W have "value_of (row_fantasy_points scoring cols r) = weighted_sum scoring cols r"
    by simp
  moreover from f have "is_number (row_fantasy_points scoring cols r)"
    by (simp add: fits_def)
  ultimately show ?thesis
    using as_cell_number by simp
qed

lemma fantasy_points_nth:
  assumes "i < length (rows df)"
  shows "fantasy_points (calculate_fantasy_points scoring df ! i)
           = as_cell (row_fantasy_points scoring (columns df) (rows df ! i))"
  using assms by (simp add: calculate_fantasy_points_def)

lemma dict_get_standard_all:
  "list_all (\<lambda>(c, d). dict_get standard_scoring c d = d) categories"
  by (simp add: categories_def standard_scoring_def dict_get_def)

lemma dict_get_standard:
  assumes "(c, d) \<in> set categories"
  shows "dict_get standard_scoring c d = d"
  using assms dict_get_standard_all unfolding list_all_iff by blast

lemma dict_get_empty: "dict_get Map.empty c d = d"
  by (simp add: dict_get_def)

lemma row_fantasy_points_cong:
  assumes "\<And>c d. (c, d) \<in> set categories \<Longrightarrow> dict_get s1 c d = dict_get s2 c d"
  shows "row_fantasy_points s1 cols r = row_fantasy_points s2 cols r"
proof -
  have "category_fp s1 cols r (fst cd) (snd cd) = category_fp s2 cols r (fst cd) (snd cd)"
    if "cd \<in> set categories" for cd
    using assms [of "fst cd" "snd cd"] that by (simp add: category_fp_def)
  then have "map (\<lambda>cd. category_fp s1 cols r (fst cd) (snd cd)) categories
           = map (\<lambda>cd. category_fp s2 cols r (fst cd) (snd cd)) categories"
    by simp
  then show ?thesis
    unfolding row_fantasy_points_foldl by (simp add: categories_def)
qed

lemma row_fantasy_points_empty:
  "row_fantasy_points Map.empty cols r = row_fantasy_points standard_scoring cols r"
  by (rule row_fantasy_points_cong) (simp add: dict_get_standard dict_get_empty)

text \<open>
  C3, as amended. The scored frame has one row per input row. Take a row whose cells in
  the category columns of the frame are all numbers, and whose integer products stay in
  range: the sum of the sizes of the products of an integer column with an integer
  weight is within the integer dtype of each such product. For this row
  \<^verbatim>\<open>fantasy_points\<close> is the weighted sum over the categories that the frame has, with
  the weights of the active dictionary (the standard default for a key it lacks). A
  category whose column the frame lacks contributes the number 0, never null. The total
  is null exactly when the row has a null in some category column that the frame has.
\<close>

theorem fantasy_points_weighted_sum:
  assumes "i < length (rows df)"
  shows "length (calculate_fantasy_points scoring df) = length (rows df)
    \<and> ((\<forall>cd \<in> set categories. fst cd \<in> set (columns df) \<longrightarrow>
            is_number (stat (rows df ! i) (fst cd))
            \<and> in_range (int_load scoring (columns df) (rows df ! i))
                (stat (rows df ! i) (fst cd)) (dict_get scoring (fst cd) (snd cd)))
         \<longrightarrow> fantasy_points (calculate_fantasy_points scoring df ! i)
               = Num (weighted_sum scoring (columns df) (rows df ! i)))
    \<and> (\<forall>c d. c \<notin> set (columns df)
          \<longrightarrow> category_fp scoring (columns df) (rows df ! i) c d = FloatCol (Num 0))
    \<and> (fantasy_points (calculate_fantasy_points scoring df ! i) = Null
         \<longleftrightarrow> (\<exists>c \<in> set (map fst categories).
                c \<in> set (columns df) \<and> is_null (stat (rows df ! i) c)))"
proof -
  have 1: "length (calculate_fantasy_points scoring df) = length (rows df)"
    by (simp add: calculate_fantasy_points_def)
  have 2: "(\<forall>cd \<in> set categories. fst cd \<in> set (columns df) \<longrightarrow>
            is_number (stat (rows df ! i) (fst cd))
            \<and> in_range (int_load scoring (columns df) (rows df ! i))
                (stat (rows df ! i) (fst cd)) (dict_get scoring (fst cd) (snd cd)))
         \<longrightarrow> fantasy_points (calculate_fantasy_points scoring df ! i)
               = Num (weighted_sum scoring (columns df) (rows df ! i))"
    unfolding fantasy_points_nth [OF assms]
    using row_fantasy_points_number [of "columns df" "rows df ! i" scoring] by (rule impI)
  have 3: "\<forall>c d. c \<notin> set (columns df)
          \<longrightarrow> category_fp scoring (columns df) (rows df ! i) c d = FloatCol (Num 0)"
    by (simp add: category_fp_def)
  have 4: "fantasy_points (calculate_fantasy_points scoring df ! i) = Null
         \<longleftrightarrow> (\<exists>c \<in> set (map fst categories).
                c \<in> set (columns df) \<and> is_null (stat (rows df ! i) c))"
    unfolding fantasy_points_nth [OF assms] as_cell_Null by (rule row_fantasy_points_null)
  show ?thesis
    by (rule conjI [OF 1 conjI [OF 2 conjI [OF 3 4]]])
qed

text \<open>
  A frame with a float column \<^verbatim>\<open>passing_yards\<close> and a 32 bit column \<^verbatim>\<open>rushing_tds\<close>
  only: 300 yards and 2 touchdowns score \<open>300 * 0.04 + 2 * 6 = 24\<close> under the standard
  scoring; the one integer product is 12.
\<close>

theorem fantasy_points_weighted_sum_witness:
  "fantasy_points (calculate_fantasy_points standard_scoring
      \<lparr>columns = [''passing_yards'', ''rushing_tds''],
       rows = [\<lparr>player_id = ''P1'', player_name = ''Player'', season = 2024, position = Some ''QB'',
                stat = cells_of [(''passing_yards'', FloatCol (Num 300)),
                                 (''rushing_tds'', IntCol Int32 (Some 2))]\<rparr>]\<rparr> ! 0)
     = Num 24"
proof -
  let ?df = "\<lparr>columns = [''passing_yards'', ''rushing_tds''],
       rows = [\<lparr>player_id = ''P1'', player_name = ''Player'', season = 2024, position = Some ''QB'',
                stat = cells_of [(''passing_yards'', FloatCol (Num 300)),
                                 (''rushing_tds'', IntCol Int32 (Some 2))]\<rparr>]\<rparr>"
  have i: "0 < length (rows ?df)" by simp
  have l: "int_load standard_scoring (columns ?df) (rows ?df ! 0) = 12"
    by (simp add: int_load_def categories_def cells_of_def dict_get_def standard_scoring_def)
  have n: "\<forall>cd \<in> set categories. fst cd \<in> set (columns ?df) \<longrightarrow>
            is_number (stat (rows ?df ! 0) (fst cd))
            \<and> in_range (int_load standard_scoring (columns ?df) (rows ?df ! 0))
                (stat (rows ?df ! 0) (fst cd)) (dict_get standard_scoring (fst cd) (snd cd))"
    unfolding l
    by (simp add: categories_def cells_of_def dict_get_def standard_scoring_def literal_dtype_def)
  have w: "weighted_sum standard_scoring (columns ?df) (rows ?df ! 0) = 24"
    by (simp add: weighted_sum_def categories_def cells_of_def value_of_def the_num_def
        dict_get_def standard_scoring_def)
  from fantasy_points_weighted_sum [OF i, of standard_scoring, THEN conjunct2, THEN conjunct1,
      THEN mp, OF n]
  show ?thesis unfolding w .
qed

text \<open>
  C3 as stated fails: a null cell in a column that the frame has makes the whole total
  null. Here the frame has \<^verbatim>\<open>passing_yards\<close> and \<^verbatim>\<open>rushing_yards\<close>, the row has 50 rushing
  yards and no value for passing yards, and \<^verbatim>\<open>fantasy_points\<close> is null, not 5.
\<close>

theorem fantasy_points_null_counterexample:
  "map fantasy_points (calculate_fantasy_points standard_scoring
      \<lparr>columns = [''passing_yards'', ''rushing_yards''],
       rows = [\<lparr>player_id = ''P1'', player_name = ''Player'', season = 2024, position = Some ''RB'',
                stat = cells_of [(''passing_yards'', IntCol Int32 None),
                                 (''rushing_yards'', IntCol Int32 (Some 50))]\<rparr>]\<rparr>)
     = [Null]"
  by (simp add: calculate_fantasy_points_def row_fantasy_points_def category_fp_def cells_of_def
      dict_get_def standard_scoring_def)

text \<open>
  Nor is the total the weighted sum when an integer product leaves its dtype: 400000000
  in a 32 bit column \<^verbatim>\<open>rushing_tds\<close>, times the integer weight 6, wraps around.
\<close>

lemma int32_product_wraps:
  "map fantasy_points (calculate_fantasy_points standard_scoring
      \<lparr>columns = [''rushing_tds''],
       rows = [\<lparr>player_id = ''P1'', player_name = ''Player'', season = 2024, position = Some ''RB'',
                stat = cells_of [(''rushing_tds'', IntCol Int32 (Some 400000000))]\<rparr>]\<rparr>)
     = [Num (- 1894967296)]"
  by (simp add: calculate_fantasy_points_def row_fantasy_points_def category_fp_def cells_of_def
      dict_get_def standard_scoring_def literal_dtype_def wrap_def)

text \<open>
  C10. A calculator built from an empty scoring dictionary scores every frame as the
  calculator built with no dictionary (the standard scoring) does, and so does the
  calculator of a predictor whose configuration has no scoring section.
\<close>

theorem empty_scoring_is_standard:
  "calculate_fantasy_points (FantasyPointCalculator_init (Some Map.empty)) df
     = calculate_fantasy_points (FantasyPointCalculator_init None) df
   \<and> calculate_fantasy_points (predictor_calculator (cfg\<lparr>cfg_scoring := None\<rparr>)) df
     = calculate_fantasy_points (FantasyPointCalculator_init None) df"
  by (simp add: calculate_fantasy_points_def FantasyPointCalculator_init_def predictor_calculator_def
      get_or_def row_fantasy_points_empty)

text \<open>With the empty dictionary 100 passing yards score 4 points, not 0.\<close>

theorem empty_scoring_is_standard_witness:
  "map fantasy_points (calculate_fantasy_points (FantasyPointCalculator_init (Some Map.empty))
      \<lparr>columns = [''passing_yards''],
       rows = [\<lparr>player_id = ''P1'', player_name = ''Player'', season = 2024, position = Some ''QB'',
                stat = cells_of [(''passing_yards'', FloatCol (Num 100))]\<rparr>]\<rparr>)
     = [Num 4]"
  unfolding empty_scoring_is_standard [THEN conjunct1]
  by (simp add: calculate_fantasy_points_def row_fantasy_points_def category_fp_def cells_of_def
      dict_get_def standard_scoring_def FantasyPointCalculator_init_def)

section \<open>Seasonal Aggregator: properties\<close>

lemma pl_std_nonneg:
  assumes "pl_std cs = Num s"
  shows "0 \<le> s"
proof -
  have "0 \<le> sum_list (map (\<lambda>x. (x - m)\<^sup>2) xs)" for m :: real and xs
    by (induction xs) auto
  then show ?thesis
    using assms by (auto simp: pl_std_def Let_def split: if_splits)
qed

lemma consistency_of_range:
  assumes "\<And>s. c = Num s \<Longrightarrow> 0 \<le> s"
  shows "\<exists>v. consistency_of c = Num v \<and> 0 < v \<and> v \<le> 1"
proof (cases c)
  case Null
  then show ?thesis by (intro exI [of _ "0.5"]) simp
next
  case NaN
  then show ?thesis by (intro exI [of _ "0.5"]) simp
next
  case (Num x)
  with assms have "0 \<le> x" by simp
  then have "0 < 1 / (x + 1)" and "1 / (x + 1) \<le> 1"
    by (simp_all add: divide_simps)
  then show ?thesis using Num by simp
qed

lemma consistency_of_cases:
  "consistency_of c = (case c of Num s \<Rightarrow> Num (1 / (s + 1)) | _ \<Rightarrow> Num 0.5)"
  by (cases c) auto

lemma consistency_of_decreasing:
  assumes "0 \<le> s1" "s1 < s2"
  shows "the_num (consistency_of (Num s2)) < the_num (consistency_of (Num s1))"
  using assms by (simp add: the_num_def field_simps)

lemma pl_std_short:
  assumes "length cs < 2"
  shows "pl_std cs = Null"
proof -
  have "length (non_null cs) \<le> length cs" by (simp add: non_null_def)
  then show ?thesis using assms by (simp add: pl_std_def)
qed

lemma nums_replicate: "nums (replicate n (Num x)) = replicate n x"
  by (induction n) (auto simp: nums_def)

lemma pl_std_identical:
  assumes "2 \<le> n"
  shows "pl_std (replicate n (Num x)) = Num 0"
proof -
  have nn: "non_null (replicate n (Num x)) = replicate n (Num x)"
    by (simp add: non_null_def)
  have mean: "sum_list (replicate n x) / real n = x"
    using assms by (simp add: sum_list_replicate)
  have dev: "map (\<lambda>y. (y - x)\<^sup>2) (replicate n x) = replicate n 0"
    by simp
  show ?thesis
    using assms unfolding pl_std_def nn nums_replicate Let_def
    by (simp add: mean sum_list_replicate)
qed

text \<open>
  C6. For every seasonal group, \<^verbatim>\<open>consistency_score\<close> is \<open>1 / (fp_std + 1)\<close> when
  \<^verbatim>\<open>fp_std\<close> is a number and 0.5 when it is null or NaN, as it is for a group of fewer
  than two rows. A standard deviation that is a number is not negative, so the score lies
  in the interval from 0 (excluded) to 1 (included); the score decreases strictly as the
  standard deviation grows; and a group of two or more equal numbers has standard
  deviation 0 and score 1.
\<close>

theorem consistency_score_properties:
  assumes "k \<in> set (group_keys df)"
  shows "seasonal_of df k \<in> set (get_player_seasonal_stats df)
    \<and> games_played (seasonal_of df k) = length (group_fp df k)
    \<and> consistency_score (seasonal_of df k)
        = (case fp_std (seasonal_of df k) of Num s \<Rightarrow> Num (1 / (s + 1)) | _ \<Rightarrow> Num 0.5)
    \<and> (games_played (seasonal_of df k) < 2
         \<longrightarrow> fp_std (seasonal_of df k) = Null \<and> consistency_score (seasonal_of df k) = Num 0.5)
    \<and> (\<forall>s. fp_std (seasonal_of df k) = Num s \<longrightarrow> 0 \<le> s)
    \<and> (\<exists>v. consistency_score (seasonal_of df k) = Num v \<and> 0 < v \<and> v \<le> 1)
    \<and> (\<forall>s1 s2. 0 \<le> s1 \<and> s1 < s2
         \<longrightarrow> the_num (consistency_of (Num s2)) < the_num (consistency_of (Num s1)))
    \<and> (\<forall>n x. 2 \<le> n \<and> group_fp df k = replicate n (Num x)
         \<longrightarrow> fp_std (seasonal_of df k) = Num 0 \<and> consistency_score (seasonal_of df k) = Num 1)"
proof -
  obtain pid name yr pos where k: "k = (pid, name, yr, pos)" by (cases k) auto
  have std: "fp_std (seasonal_of df k) = pl_std (group_fp df k)"
    and cons: "consistency_score (seasonal_of df k) = consistency_of (pl_std (group_fp df k))"
    and games: "games_played (seasonal_of df k) = length (group_fp df k)"
    by (simp_all add: seasonal_of_def k)
  have 1: "seasonal_of df k \<in> set (get_player_seasonal_stats df)"
    using assms by (simp add: get_player_seasonal_stats_def)
  have 2: "consistency_score (seasonal_of df k)
        = (case fp_std (seasonal_of df k) of Num s \<Rightarrow> Num (1 / (s + 1)) | _ \<Rightarrow> Num 0.5)"
    unfolding std cons by (rule consistency_of_cases)
  have 3: "games_played (seasonal_of df k) < 2
         \<longrightarrow> fp_std (seasonal_of df k) = Null \<and> consistency_score (seasonal_of df k) = Num 0.5"
    unfolding std cons games by (auto simp: pl_std_short)
  have 4: "\<forall>s. fp_std (seasonal_of df k) = Num s \<longrightarrow> 0 \<le> s"
    unfolding std using pl_std_nonneg by blast
  have 5: "\<exists>v. consistency_score (seasonal_of df k) = Num v \<and> 0 < v \<and> v \<le> 1"
    unfolding cons by (rule consistency_of_range) (rule pl_std_nonneg)
  have 6: "\<forall>s1 s2. 0 \<le> s1 \<and> s1 < s2
         \<longrightarrow> the_num (consistency_of (Num s2)) < the_num (consistency_of (Num s1))"
    using consistency_of_decreasing by blast
  have 7: "\<forall>n x. 2 \<le> n \<and> group_fp df k = replicate n (Num x)
         \<longrightarrow> fp_std (seasonal_of df k) = Num 0 \<and> consistency_score (seasonal_of df k) = Num 1"
    unfolding std cons by (auto simp: pl_std_identical)
  from 1 games 2 3 4 5 6 7 show ?thesis by blast
qed

text \<open>A season of two games of 10 points each has score 1, a season of one game 0.5.\<close>

theorem consistency_score_properties_witness:
  "(''P1'', ''Player'', 2024, Some ''RB'') \<in> set (group_keys [example_game ''P1'' 2024 ''RB'' (Num 10), example_game ''P1'' 2024 ''RB'' (Num 10)])
   \<and> consistency_score (seasonal_of [example_game ''P1'' 2024 ''RB'' (Num 10), example_game ''P1'' 2024 ''RB'' (Num 10)]
         (''P1'', ''Player'', 2024, Some ''RB'')) = Num 1
   \<and> consistency_score (seasonal_of [example_game ''P1'' 2024 ''RB'' (Num 10)]
         (''P1'', ''Player'', 2024, Some ''RB'')) = Num 0.5"
proof -
  let ?k = "(''P1'', ''Player'', 2024, Some ''RB'')"
  let ?df = "[example_game ''P1'' 2024 ''RB'' (Num 10), example_game ''P1'' 2024 ''RB'' (Num 10)]"
  let ?df1 = "[example_game ''P1'' 2024 ''RB'' (Num 10)]"
  have k: "?k \<in> set (group_keys ?df)" and k1: "?k \<in> set (group_keys ?df1)"
    by (simp_all add: group_keys_def key_of_def example_game_def)
  have g: "2 \<le> (2::nat) \<and> group_fp ?df ?k = replicate 2 (Num 10)"
    by (simp add: group_fp_def key_of_def example_game_def numeral_2_eq_2)
  have g1: "games_played (seasonal_of ?df1 ?k) < 2"
    by (simp add: seasonal_of_def group_fp_def key_of_def example_game_def)
  show ?thesis
    using consistency_score_properties [OF k] consistency_score_properties [OF k1] g g1 k by blast
qed

section \<open>Trend Estimator: properties\<close>

lemma mset_valid_data:
  "mset (valid_data zs)
     = (\<Sum>z\<in>#mset zs. mset (case z of (s, f) \<Rightarrow> (case f of Num v \<Rightarrow> [(s, v)] | _ \<Rightarrow> [])))"
  by (induction zs) (auto simp: valid_data_def)

lemma mset_valid_data_sort:
  "mset (valid_data (map h (sort_key f xs))) = mset (valid_data (map h xs))"
  unfolding mset_valid_data by simp

lemma length_valid_data_le: "length (valid_data zs) \<le> length zs"
  by (induction zs) (auto simp: valid_data_def split: cell.splits)

lemma sum_list_mset_cong:
  fixes g :: "'a \<Rightarrow> 'b::comm_monoid_add"
  assumes "mset xs = mset ys"
  shows "sum_list (map g xs) = sum_list (map g ys)"
proof -
  have "sum_list (map g xs) = sum_mset (image_mset g (mset xs))"
    by (metis mset_map sum_mset_sum_list)
  also have "\<dots> = sum_mset (image_mset g (mset ys))"
    using assms by simp
  also have "\<dots> = sum_list (map g ys)"
    by (metis mset_map sum_mset_sum_list)
  finally show ?thesis .
qed

lemma zip_fst_snd: "zip (map fst ps) (map snd ps) = ps"
  by (induction ps) auto

lemma trend_of_pairs:
  fixes V :: "(int \<times> real) list"
  shows "(let seasons = map fst V;
              avg_fp = map snd V;
              n = int (length seasons);
              sum_x = sum_list seasons;
              sum_y = sum_list avg_fp;
              sum_xy = sum_list (map (\<lambda>(s, f). real_of_int s * f) (zip seasons avg_fp));
              sum_x2 = sum_list (map (\<lambda>s. s * s) seasons)
          in if n * sum_x2 - sum_x * sum_x = 0 then 0.0
             else (real_of_int n * sum_xy - real_of_int sum_x * sum_y)
                    / real_of_int (n * sum_x2 - sum_x * sum_x))
         = (if ols_denominator V = 0 then 0 else ols_slope V)"
proof -
  have sx: "real_of_int (sum_list (map fst V)) = (\<Sum>(x, y)\<leftarrow>V. real_of_int x)"
    by (induction V) auto
  have sx2: "real_of_int (sum_list (map (\<lambda>s. s * s) (map fst V)))
               = (\<Sum>(x, y)\<leftarrow>V. real_of_int x * real_of_int x)"
    by (induction V) auto
  have sy: "sum_list (map snd V) = (\<Sum>(x, y)\<leftarrow>V. y)"
    by (induction V) auto
  have den: "real_of_int (int (length V) * sum_list (map (\<lambda>s. s * s) (map fst V))
                 - sum_list (map fst V) * sum_list (map fst V)) = ols_denominator V"
    unfolding ols_denominator_def using sx sx2 by simp
  have den0: "(int (length V) * sum_list (map (\<lambda>s. s * s) (map fst V))
                 - sum_list (map fst V) * sum_list (map fst V) = 0) = (ols_denominator V = 0)"
    using den by (metis of_int_eq_0_iff)
  show ?thesis
    unfolding Let_def zip_fst_snd
    using den den0 sx sy by (simp add: ols_slope_def)
qed

lemma calculate_trend_pairs:
  "calculate_trend seasonal_df pid =
     (if length (player_pairs seasonal_df pid) < 2 \<or> ols_denominator (player_pairs seasonal_df pid) = 0
      then 0 else ols_slope (player_pairs seasonal_df pid))"
proof -
  define P where "P = filter (\<lambda>r. player_id r = pid) seasonal_df"
  define V where "V = valid_data (map (\<lambda>r. (season r, avg_fp_per_game r)) P)"
  define V' where "V' = valid_data (map (\<lambda>r. (season r, avg_fp_per_game r)) (sort_key season P))"
  have zipP: "zip (map season (sort_key season P)) (map avg_fp_per_game (sort_key season P))
                = map (\<lambda>r. (season r, avg_fp_per_game r)) (sort_key season P)"
    by (simp add: zip_map_map zip_same_conv_map)
  have m: "mset V' = mset V"
    unfolding V'_def V_def by (rule mset_valid_data_sort)
  have len: "length V' = length V"
    using m by (metis size_mset)
  have den: "ols_denominator V' = ols_denominator V"
    unfolding ols_denominator_def len by (simp only: sum_list_mset_cong [OF m])
  have slope: "ols_slope V' = ols_slope V"
    unfolding ols_slope_def den len by (simp only: sum_list_mset_cong [OF m])
  have short: "length P < 2 \<Longrightarrow> length V < 2"
    using length_valid_data_le [of "map (\<lambda>r. (season r, avg_fp_per_game r)) P"]
    unfolding V_def by simp
  have VV: "player_pairs seasonal_df pid = V"
    unfolding player_pairs_def V_def P_def ..
  have "calculate_trend seasonal_df pid =
     (if length P < 2 then 0 else if length V' < 2 then 0
      else if ols_denominator V' = 0 then 0 else ols_slope V')"
    unfolding calculate_trend_def Let_def
    unfolding P_def [symmetric]
    unfolding zipP
    unfolding V'_def [symmetric]
    unfolding trend_of_pairs [unfolded Let_def]
    by simp
  also have "\<dots> = (if length V < 2 \<or> ols_denominator V = 0 then 0 else ols_slope V)"
    using short by (auto simp: len den slope)
  finally show ?thesis unfolding VV .
qed

lemma calculate_trend_example:
  "calculate_trend [example_summary ''P1'' 2020 (Num 10.0), example_summary ''P1'' 2021 (Num 12.0),
       example_summary ''P1'' 2022 (Num 14.0)] ''P1'' = 2.0"
  by (simp add: calculate_trend_def example_summary_def valid_data_def)

text \<open>
  C7. The trend of a player is computed from the player's seasonal summaries whose
  average is a number: it is 0 when fewer than two such (season, average) pairs remain or
  when the denominator \<open>n \<Sum>x\<^sup>2 - (\<Sum>x)\<^sup>2\<close> is zero, and the least-squares slope
  \<open>(n \<Sum>xy - \<Sum>x \<Sum>y) / (n \<Sum>x\<^sup>2 - (\<Sum>x)\<^sup>2)\<close> otherwise. On the points (2020, 10),
  (2021, 12), (2022, 14) it is 2.
\<close>

theorem calculate_trend_ols:
  "calculate_trend seasonal_df pid =
     (if length (player_pairs seasonal_df pid) < 2 \<or> ols_denominator (player_pairs seasonal_df pid) = 0
      then 0.0 else ols_slope (player_pairs seasonal_df pid))
   \<and> calculate_trend [example_summary ''P1'' 2020 (Num 10.0), example_summary ''P1'' 2021 (Num 12.0),
         example_summary ''P1'' 2022 (Num 14.0)] ''P1'' = 2.0"
  using calculate_trend_pairs [of seasonal_df pid] calculate_trend_example by simp

text \<open>
  One valid pair left after a NaN average is dropped: trend 0. One season twice: the
  denominator is zero, trend 0. Two valid pairs around a null average, given newest
  first: slope \<open>(9 - 12) / (2025 - 2023)\<close>.
\<close>

theorem calculate_trend_ols_witness:
  "calculate_trend [example_summary ''P1'' 2024 (Num 10.0), example_summary ''P1'' 2025 NaN,
       example_summary ''P2'' 2025 (Num 7.0)] ''P1'' = 0.0
   \<and> calculate_trend [example_summary ''P1'' 2024 (Num 10.0), example_summary ''P1'' 2024 (Num 12.0)] ''P1'' = 0.0
   \<and> calculate_trend [example_summary ''P1'' 2025 (Num 9.0), example_summary ''P1'' 2024 Null,
       example_summary ''P1'' 2023 (Num 12.0)] ''P1'' = - 1.5"
proof -
  have 1: "player_pairs [example_summary ''P1'' 2024 (Num 10.0), example_summary ''P1'' 2025 NaN,
       example_summary ''P2'' 2025 (Num 7.0)] ''P1'' = [(2024, 10)]"
    by (simp add: player_pairs_def example_summary_def valid_data_def)
  have 2: "player_pairs [example_summary ''P1'' 2024 (Num 10.0), example_summary ''P1'' 2024 (Num 12.0)] ''P1''
             = [(2024, 10), (2024, 12)]"
    by (simp add: player_pairs_def example_summary_def valid_data_def)
  have 3: "player_pairs [example_summary ''P1'' 2025 (Num 9.0), example_summary ''P1'' 2024 Null,
       example_summary ''P1'' 2023 (Num 12.0)] ''P1'' = [(2025, 9), (2023, 12)]"
    by (simp add: player_pairs_def example_summary_def valid_data_def)
  show ?thesis
    unfolding calculate_trend_ols [THEN conjunct1] 1 2 3
    by (simp add: ols_denominator_def ols_slope_def)
qed

section \<open>Season Predictor: properties\<close>

lemma recency_weights_nth:
  assumes "j < n"
  shows "recency_weights n ! j = 1.0 + real (n - 1 - j) * 0.3"
  using assms by (simp add: recency_weights_def rev_nth)

lemma valid_data_Num:
  assumes "valid_data (zip (map f rs) (map g rs)) \<noteq> []"
  shows "\<exists>v. Num v \<in> set (map g rs)"
  using assms by (induction rs) (auto simp: valid_data_def split: cell.splits)

lemma pl_mean_not_Null:
  assumes "Num v \<in> set cs"
  shows "pl_mean cs \<noteq> Null"
proof -
  have "Num v \<in> set (non_null cs)" using assms by (simp add: non_null_def)
  then have "non_null cs \<noteq> []" by auto
  then show ?thesis by (simp add: pl_mean_def)
qed

lemma predict_player_2026_None:
  assumes "recent_data_of cfg (filter (\<lambda>r. player_id r = pid) seasonal_df) = []"
  shows "predict_player_2026 cfg seasonal_df pid = Inr None"
  using assms by (simp add: predict_player_2026_def Let_def)

lemma predict_player_2026_Some:
  assumes "predict_player_2026 cfg seasonal_df pid = Inr (Some p)"
  shows "seasons_analyzed p = length (recent_data_of cfg (filter (\<lambda>r. player_id r = pid) seasonal_df))
       \<and> last_season p = Max (season ` set (recent_data_of cfg (filter (\<lambda>r. player_id r = pid) seasonal_df)))
       \<and> recent_data_of cfg (filter (\<lambda>r. player_id r = pid) seasonal_df) \<noteq> []"
  using assms unfolding predict_player_2026_def Let_def
  by (auto split: if_splits cell.splits)

lemma predict_player_2026_total:
  "predict_player_2026 cfg seasonal_df pid \<noteq> Inl e"
proof -
  have "pl_mean (map avg_fp_per_game rs) \<noteq> Null"
    if "valid_data (zip (map season rs) (map avg_fp_per_game rs)) \<noteq> []" for rs :: "seasonal_row list"
    using valid_data_Num [OF that] pl_mean_not_Null by blast
  then show ?thesis
    unfolding predict_player_2026_def Let_def
    by (auto split: if_splits cell.splits)
qed

text \<open>
  C2, as amended. For every player the Season Predictor selects exactly the player's
  summaries whose season is at least \<open>target_season - 3\<close>; there is no upper bound, so
  a summary for the target season or a later one is selected as well. When no summary
  qualifies the predictor returns \<^verbatim>\<open>None\<close>; it never raises. A prediction it returns
  counts the selected summaries in \<^verbatim>\<open>seasons_analyzed\<close> and reports their latest season.
\<close>

theorem lookback_window:
  "set (recent_data_of cfg (filter (\<lambda>r. player_id r = pid) seasonal_df))
     = {r \<in> set seasonal_df. player_id r = pid \<and> target_season cfg - 3 \<le> season r}
   \<and> ({r \<in> set seasonal_df. player_id r = pid \<and> target_season cfg - 3 \<le> season r} = {}
        \<longrightarrow> predict_player_2026 cfg seasonal_df pid = Inr None)
   \<and> (\<forall>p. predict_player_2026 cfg seasonal_df pid = Inr (Some p)
        \<longrightarrow> seasons_analyzed p = length (recent_data_of cfg (filter (\<lambda>r. player_id r = pid) seasonal_df))
          \<and> last_season p = Max (season ` {r \<in> set seasonal_df. player_id r = pid \<and> target_season cfg - 3 \<le> season r}))
   \<and> (\<forall>e. predict_player_2026 cfg seasonal_df pid \<noteq> Inl e)"
proof -
  let ?R = "recent_data_of cfg (filter (\<lambda>r. player_id r = pid) seasonal_df)"
  let ?S = "{r \<in> set seasonal_df. player_id r = pid \<and> target_season cfg - 3 \<le> season r}"
  have s: "set ?R = ?S"
    by (auto simp: recent_data_of_def)
  have n: "?S = {} \<longrightarrow> predict_player_2026 cfg seasonal_df pid = Inr None"
    using predict_player_2026_None [of cfg pid seasonal_df] s by (metis set_empty)
  have p: "\<forall>p. predict_player_2026 cfg seasonal_df pid = Inr (Some p)
        \<longrightarrow> seasons_analyzed p = length ?R \<and> last_season p = Max (season ` ?S)"
    using predict_player_2026_Some [of cfg seasonal_df pid] s by auto
  show ?thesis
    using s n p predict_player_2026_total by blast
qed

text \<open>
  Target season 2026: summaries for 2021 and 2022 give no prediction; of summaries for
  2022 and 2023 only the one for 2023 is analysed.
\<close>

theorem lookback_window_witness:
  "predict_player_2026 example_config
     [example_summary ''P1'' 2021 (Num 9), example_summary ''P1'' 2022 (Num 11)] ''P1'' = Inr None
   \<and> (\<exists>p. predict_player_2026 example_config
     [example_summary ''P1'' 2022 (Num 9), example_summary ''P1'' 2023 (Num 11)] ''P1'' = Inr (Some p)
       \<and> seasons_analyzed p = 1 \<and> last_season p = 2023)"
proof -
  let ?old = "[example_summary ''P1'' 2021 (Num 9), example_summary ''P1'' 2022 (Num 11)]"
  let ?new = "[example_summary ''P1'' 2022 (Num 9), example_summary ''P1'' 2023 (Num 11)]"
  have e: "{r \<in> set ?old. player_id r = ''P1'' \<and> target_season example_config - 3 \<le> season r} = {}"
    by (auto simp: example_summary_def example_config_def)
  have r: "recent_data_of example_config (filter (\<lambda>r. player_id r = ''P1'') ?new) = [example_summary ''P1'' 2023 (Num 11)]"
    by (simp add: recent_data_of_def example_summary_def example_config_def)
  have s: "{r \<in> set ?new. player_id r = ''P1'' \<and> target_season example_config - 3 \<le> season r} = {example_summary ''P1'' 2023 (Num 11)}"
    by (auto simp: example_summary_def example_config_def)
  have m: "season (example_summary ''P1'' 2023 (Num 11)) = 2023"
    by (simp add: example_summary_def)
  have "predict_player_2026 example_config ?new ''P1''
     = Inr (Some
       \<lparr>pred_player_id = ''P1'', pred_player_name = ''Player'',
          pred_position = ''RB'', predicted_avg_fp_per_game = 11.6,
          predicted_season_fp = 197.2, recent_avg_fp = Num 11, pred_trend = 2,
          pred_consistency_score = 0.5, seasons_analyzed = 1,
          last_season = 2023\<rparr>)"
    by code_simp
  then obtain p where p: "predict_player_2026 example_config ?new ''P1'' = Inr (Some p)" ..
  have "seasons_analyzed p = 1 \<and> last_season p = 2023"
    using lookback_window [of example_config "''P1''" ?new] p unfolding r s by (simp add: m)
  moreover have "predict_player_2026 example_config ?old ''P1'' = Inr None"
    using lookback_window [of example_config "''P1''" ?old] e by blast
  ultimately show ?thesis using p by blast
qed

text \<open>
  C2 as stated fails: with target season 2026, a summary for 2026 itself is selected and
  analysed.
\<close>

theorem lookback_includes_target_season_counterexample:
  "predict_player_2026 example_config [example_summary ''P1'' 2026 (Num 10)] ''P1''
     = Inr (Some
       \<lparr>pred_player_id = ''P1'', pred_player_name = ''Player'',
          pred_position = ''RB'', predicted_avg_fp_per_game = 10,
          predicted_season_fp = 170, recent_avg_fp = Num 10, pred_trend = 0,
          pred_consistency_score = 0.5, seasons_analyzed = 1,
          last_season = 2026\<rparr>)"
  by code_simp

text \<open>
  C1 fails on the code. The weights are \<open>1 + 0.3 i\<close> for \<open>i = 0, 1, \<dots>\<close>, reversed,
  and are paired with the valid entries in the order of the frame; the predictor does not
  sort by season. So the first entry gets the largest weight. For a player whose
  summaries are in ascending order of season (2023, 2024, 2025 with averages 10, 12, 14,
  target season 2026) the oldest season gets 1.6 and the most recent 1.0: the weighted
  average is \<open>45.6 / 3.9\<close>, about 11.69, and the prediction 12.29 per game, where weights
  favouring the most recent season would give \<open>48 / 3.9\<close>, about 12.31, and 12.91.
\<close>

theorem recency_weights_favour_first_entry:
  "recency_weights 3 = [1.6, 1.3, 1.0]
   \<and> zip (valid_data [(2023, Num 10), (2024, Num 12), (2025, Num 14)]) (recency_weights 3)
       = [((2023, 10), 1.6), ((2024, 12), 1.3), ((2025, 14), 1.0)]
   \<and> weighted_avg_of [10, 12, 14] = (10 * 1.6 + 12 * 1.3 + 14 * 1.0) / (1.6 + 1.3 + 1.0)
   \<and> predict_player_2026 example_config
        [example_summary ''P1'' 2023 (Num 10), example_summary ''P1'' 2024 (Num 12),
         example_summary ''P1'' 2025 (Num 14)] ''P1''
       = Inr (Some
           \<lparr>pred_player_id = ''P1'', pred_player_name = ''Player'', pred_position = ''RB'',
            predicted_avg_fp_per_game = 12.29, predicted_season_fp = 208.97,
            recent_avg_fp = Num 12, pred_trend = 2, pred_consistency_score = 0.5,
            seasons_analyzed = 3, last_season = 2025\<rparr>)"
  by code_simp

section \<open>Prediction Orchestrator: properties\<close>

lemma player_id_seasonal_of: "player_id (seasonal_of df k) = fst k"
  by (cases k) (simp add: seasonal_of_def)

lemma season_seasonal_of: "season (seasonal_of df k) = fst (snd (snd k))"
  by (cases k) (simp add: seasonal_of_def)

lemma set_group_keys: "set (group_keys df) = key_of ` set df"
  by (simp add: group_keys_def)

lemma season_count_seasonal:
  "season_count (get_player_seasonal_stats df) p = card {k \<in> key_of ` set df. fst k = p}"
proof -
  have "season_count (get_player_seasonal_stats df) p
          = length (filter (\<lambda>k. fst k = p) (group_keys df))"
    by (simp add: season_count_def get_player_seasonal_stats_def filter_map o_def
        player_id_seasonal_of)
  also have "\<dots> = card (set (filter (\<lambda>k. fst k = p) (group_keys df)))"
  proof -
    have "distinct (filter (\<lambda>k. fst k = p) (group_keys df))"
      by (simp add: group_keys_def)
    then show ?thesis by (rule distinct_card [symmetric])
  qed
  also have "set (filter (\<lambda>k. fst k = p) (group_keys df)) = {k \<in> key_of ` set df. fst k = p}"
    by (auto simp: set_group_keys)
  finally show ?thesis .
qed

lemma player_ids_seasonal:
  "set (map player_id (get_player_seasonal_stats df)) = player_id ` set df"
proof -
  have "set (map player_id (get_player_seasonal_stats df)) = fst ` key_of ` set df"
    by (simp add: get_player_seasonal_stats_def o_def player_id_seasonal_of set_group_keys image_image)
  also have "\<dots> = player_id ` set df"
    by (simp add: image_image key_of_def)
  finally show ?thesis .
qed

lemma set_eligible_by_seasons:
  "set (eligible_by_seasons m seasonal_df)
     = {p \<in> player_id ` set seasonal_df. m \<le> int (season_count seasonal_df p)}"
  by (auto simp: eligible_by_seasons_def)

lemma card_keys_seasons:
  assumes "\<forall>r1 \<in> set df. \<forall>r2 \<in> set df.
             player_id r1 = player_id r2 \<and> season r1 = season r2
               \<longrightarrow> player_name r1 = player_name r2 \<and> position r1 = position r2"
  shows "card {k \<in> key_of ` set df. fst k = p} = card (season ` {r \<in> set df. player_id r = p})"
proof -
  let ?K = "{k \<in> key_of ` set df. fst k = p}"
  let ?g = "\<lambda>k :: string \<times> string \<times> int \<times> string option. fst (snd (snd k))"
  have img: "?g ` ?K = season ` {r \<in> set df. player_id r = p}"
    by (auto simp: key_of_def image_iff) force
  have inj: "inj_on ?g ?K"
  proof (rule inj_onI)
    fix k1 k2 assume k1: "k1 \<in> ?K" and k2: "k2 \<in> ?K" and g: "?g k1 = ?g k2"
    from k1 obtain r1 where r1: "r1 \<in> set df" "k1 = key_of r1" "player_id r1 = p"
      by (auto simp: key_of_def)
    from k2 obtain r2 where r2: "r2 \<in> set df" "k2 = key_of r2" "player_id r2 = p"
      by (auto simp: key_of_def)
    from g r1 r2 have "season r1 = season r2" by (simp add: key_of_def)
    from assms r1(1) have "\<forall>r2 \<in> set df. player_id r1 = player_id r2 \<and> season r1 = season r2
               \<longrightarrow> player_name r1 = player_name r2 \<and> position r1 = position r2"
      by (rule bspec)
    from this r2(1) have "player_id r1 = player_id r2 \<and> season r1 = season r2
               \<longrightarrow> player_name r1 = player_name r2 \<and> position r1 = position r2"
      by (rule bspec)
    with r1 r2 \<open>season r1 = season r2\<close>
    have "player_name r1 = player_name r2 \<and> position r1 = position r2"
      by simp
    with r1 r2 \<open>season r1 = season r2\<close> show "k1 = k2" by (simp add: key_of_def)
  qed
  show ?thesis
    using card_image [OF inj] img by simp
qed

text \<open>
  What the eligibility filter computes: the players whose number of seasonal summaries is
  at least the minimum, a player having one summary for each distinct combination of
  name, season and position in the player's games. For a frame in which every player
  has one name and one position within each season, this is the number of distinct
  seasons of the player. With no position filter enabled the orchestrator's eligible
  players are these, with 2 as the default minimum.
\<close>

lemma eligible_by_seasons_counts_rows:
  "set (eligible_by_seasons m (get_player_seasonal_stats df))
     = {p \<in> player_id ` set df. m \<le> int (card {k \<in> key_of ` set df. fst k = p})}
   \<and> ((\<forall>r1 \<in> set df. \<forall>r2 \<in> set df.
          player_id r1 = player_id r2 \<and> season r1 = season r2
            \<longrightarrow> player_name r1 = player_name r2 \<and> position r1 = position r2)
        \<longrightarrow> set (eligible_by_seasons m (get_player_seasonal_stats df))
              = {p \<in> player_id ` set df. m \<le> int (card (season ` {r \<in> set df. player_id r = p}))})
   \<and> (\<not> list_ex snd (get_or (position_filters cfg) [])
        \<longrightarrow> eligible_players cfg seasonal_df
              = eligible_by_seasons (get_or (min_seasons_played cfg) 2) seasonal_df)"
proof -
  have a: "set (eligible_by_seasons m (get_player_seasonal_stats df))
     = {p \<in> player_id ` set df. m \<le> int (card {k \<in> key_of ` set df. fst k = p})}"
    unfolding set_eligible_by_seasons season_count_seasonal
    using player_ids_seasonal [of df] by simp
  have b: "\<not> list_ex snd (get_or (position_filters cfg) [])
        \<longrightarrow> eligible_players cfg seasonal_df
              = eligible_by_seasons (get_or (min_seasons_played cfg) 2) seasonal_df"
    by (simp add: eligible_players_def Let_def)
  have c: "(\<forall>r1 \<in> set df. \<forall>r2 \<in> set df.
          player_id r1 = player_id r2 \<and> season r1 = season r2
            \<longrightarrow> player_name r1 = player_name r2 \<and> position r1 = position r2)
        \<longrightarrow> set (eligible_by_seasons m (get_player_seasonal_stats df))
              = {p \<in> player_id ` set df. m \<le> int (card (season ` {r \<in> set df. player_id r = p}))}"
  proof
    assume fd: "\<forall>r1 \<in> set df. \<forall>r2 \<in> set df.
          player_id r1 = player_id r2 \<and> season r1 = season r2
            \<longrightarrow> player_name r1 = player_name r2 \<and> position r1 = position r2"
    show "set (eligible_by_seasons m (get_player_seasonal_stats df))
              = {p \<in> player_id ` set df. m \<le> int (card (season ` {r \<in> set df. player_id r = p}))}"
      unfolding a card_keys_seasons [OF fd] ..
  qed
  show ?thesis
    by (rule conjI [OF a conjI [OF c b]])
qed

text \<open>
  C4 fails on the code. The filter counts the seasonal summaries of a player, not the
  player's seasons: a player with games in the single season 2024, one as RB and one as
  WR, has two summaries and is eligible under the default minimum of 2, although the
  player's summaries are all of one season.
\<close>

theorem eligible_with_one_season:
  "eligible_players example_config (get_player_seasonal_stats
      [example_game ''P1'' 2024 ''RB'' (Num 10), example_game ''P1'' 2024 ''WR'' (Num 12)])
     = [''P1'']
   \<and> remdups (map season (get_player_seasonal_stats
      [example_game ''P1'' 2024 ''RB'' (Num 10), example_game ''P1'' 2024 ''WR'' (Num 12)]))
     = [2024]"
  by (simp add: eligible_players_def eligible_by_seasons_def season_count_def get_or_def
      example_config_def get_player_seasonal_stats_def group_keys_def key_of_def
      seasonal_of_def example_game_def)

text \<open>
  The whole method: it raises when the file of game-level statistics is missing, and is
  the run on the seasonal frame of the scored games otherwise.
\<close>

lemma predict_all_players_missing:
  "predict_all_players cfg None res \<longleftrightarrow> res = Inl FileNotFoundError"
  by (simp add: predict_all_players_def load_player_stats_def)

lemma predict_all_players_loaded:
  "predict_all_players cfg (Some df) res
     \<longleftrightarrow> predict_seasonal cfg
           (get_player_seasonal_stats (calculate_fantasy_points (predictor_calculator cfg) df)) res"
  by (simp add: predict_all_players_def load_player_stats_def)

lemma predict_loop_surviving: "predict_loop predict eligible = surviving predict eligible"
  by (induction eligible) (auto simp: surviving_def split: sum.splits option.splits)

lemma predict_loop_append:
  "predict_loop predict (xs @ ys) = predict_loop predict xs @ predict_loop predict ys"
  by (simp add: predict_loop_surviving surviving_def)

lemma predict_loop_skips_error:
  assumes "predict pid = Inl e"
  shows "predict_loop predict (before @ pid # after) = predict_loop predict (before @ after)"
  using assms by (simp add: predict_loop_append)

lemma run_predictions_cases:
  "run_predictions predict eligible =
     (if surviving predict eligible = [] then Inl ValueError else Inr (surviving predict eligible))"
  by (simp add: run_predictions_def predict_loop_surviving)

lemma pl_sort_descending_sorted:
  "sorted_wrt (\<lambda>a b. key a \<ge> key b) (pl_sort_descending key xs)"
proof -
  have "sorted (map (\<lambda>x. - key x) (sort_key (\<lambda>x. - key x) xs))"
    by (rule sorted_sort_key)
  then show ?thesis
    by (simp add: pl_sort_descending_def sorted_map)
qed

lemma pl_sort_descending_mset: "mset (pl_sort_descending key xs) = mset xs"
  by (simp add: pl_sort_descending_def)

lemma pl_sort_descending_stable:
  "filter (\<lambda>x. key x = v) (pl_sort_descending key xs) = filter (\<lambda>x. key x = v) xs"
  using sort_key_stable [of "\<lambda>x. - key x" "- v" xs]
  by (simp add: pl_sort_descending_def)

text \<open>The two example frames, run through the eligibility filter, the loop and the check.\<close>

lemma two_players_run:
  "run_predictions (predict_player_2026 example_config two_players)
       (eligible_players example_config two_players)
     = Inr [example_prediction ''P1'', example_prediction ''P2'']"
  by code_simp

lemma ranked_players_run:
  "run_predictions (predict_player_2026 example_config ranked_players)
       (eligible_players example_config ranked_players)
     = Inr [example_prediction ''P1'', example_prediction_P2]"
  by code_simp

lemma predict_seasonal_Inl:
  "predict_seasonal cfg seasonal_df (Inl e)
     \<longleftrightarrow> e = ValueError
         \<and> surviving (predict_player_2026 cfg seasonal_df) (eligible_players cfg seasonal_df) = []"
  by (auto simp: predict_seasonal_def run_predictions_cases)

lemma predict_seasonal_Inr:
  "predict_seasonal cfg seasonal_df (Inr out)
     \<longleftrightarrow> surviving (predict_player_2026 cfg seasonal_df) (eligible_players cfg seasonal_df) \<noteq> []
         \<and> out = pl_sort_descending predicted_season_fp
              (surviving (predict_player_2026 cfg seasonal_df) (eligible_players cfg seasonal_df))"
  by (auto simp: predict_seasonal_def run_predictions_cases)

text \<open>
  C8. The loop with the check after it raises if and only if no prediction survives, and
  then raises the \<^verbatim>\<open>ValueError\<close>; when a prediction survives it returns the surviving
  predictions. A player whose prediction raises is passed over: the result is that of the
  loop without this player. The same holds of the orchestrator from the seasonal frame
  on, where a run with a surviving prediction has an outcome that is a frame.
\<close>

theorem run_predictions_error_iff:
  "((\<exists>e. run_predictions predict eligible = Inl e) \<longleftrightarrow> surviving predict eligible = [])
   \<and> (\<forall>e. run_predictions predict eligible = Inl e \<longrightarrow> e = ValueError)
   \<and> (surviving predict eligible \<noteq> []
        \<longrightarrow> run_predictions predict eligible = Inr (surviving predict eligible))
   \<and> (\<forall>e. predict pid = Inl e
        \<longrightarrow> predict_loop predict (before @ pid # after) = predict_loop predict (before @ after))
   \<and> ((\<exists>e. predict_seasonal cfg seasonal_df (Inl e))
        \<longleftrightarrow> surviving (predict_player_2026 cfg seasonal_df) (eligible_players cfg seasonal_df) = [])
   \<and> (surviving (predict_player_2026 cfg seasonal_df) (eligible_players cfg seasonal_df) \<noteq> []
        \<longrightarrow> (\<exists>out. predict_seasonal cfg seasonal_df (Inr out)))"
proof -
  have 1: "(\<exists>e. run_predictions predict eligible = Inl e) \<longleftrightarrow> surviving predict eligible = []"
    by (simp add: run_predictions_cases)
  have 2: "\<forall>e. run_predictions predict eligible = Inl e \<longrightarrow> e = ValueError"
    by (simp add: run_predictions_cases)
  have 3: "surviving predict eligible \<noteq> []
        \<longrightarrow> run_predictions predict eligible = Inr (surviving predict eligible)"
    by (simp add: run_predictions_cases)
  have 4: "\<forall>e. predict pid = Inl e
        \<longrightarrow> predict_loop predict (before @ pid # after) = predict_loop predict (before @ after)"
    using predict_loop_skips_error by blast
  have 5: "(\<exists>e. predict_seasonal cfg seasonal_df (Inl e))
        \<longleftrightarrow> surviving (predict_player_2026 cfg seasonal_df) (eligible_players cfg seasonal_df) = []"
    by (simp add: predict_seasonal_Inl)
  have 6: "surviving (predict_player_2026 cfg seasonal_df) (eligible_players cfg seasonal_df) \<noteq> []
        \<longrightarrow> (\<exists>out. predict_seasonal cfg seasonal_df (Inr out))"
    unfolding predict_seasonal_Inr by blast
  show ?thesis
    by (rule conjI [OF 1 conjI [OF 2 conjI [OF 3 conjI [OF 4 conjI [OF 5 6]]]]])
qed

text \<open>
  A predictor that raises for \<^verbatim>\<open>bad\<close> and returns \<^verbatim>\<open>None\<close> for \<^verbatim>\<open>none\<close>: the other
  players' predictions are returned, and the loop gives the same with and without
  \<^verbatim>\<open>bad\<close>; with only these two players the run raises. The run on the frame of two
  ranked players returns a frame.
\<close>

theorem run_predictions_error_iff_witness:
  "run_predictions example_predict [''bad'', ''P1'', ''none'', ''P2'']
     = Inr [example_prediction ''P1'', example_prediction ''P2'']
   \<and> run_predictions example_predict [''bad'', ''none''] = Inl ValueError
   \<and> predict_loop example_predict ([''P1''] @ ''bad'' # [''P2''])
       = predict_loop example_predict ([''P1''] @ [''P2''])
   \<and> (\<exists>out. predict_seasonal example_config ranked_players (Inr out))"
proof -
  have s: "surviving example_predict [''bad'', ''P1'', ''none'', ''P2'']
             = [example_prediction ''P1'', example_prediction ''P2'']"
    by (simp add: surviving_def example_predict_def)
  have n: "surviving example_predict [''bad'', ''none''] = []"
    by (simp add: surviving_def example_predict_def)
  have bad: "example_predict ''bad'' = Inl TypeError"
    by (simp add: example_predict_def)
  have r: "surviving (predict_player_2026 example_config ranked_players)
             (eligible_players example_config ranked_players) \<noteq> []"
    using ranked_players_run by (auto simp: run_predictions_cases split: if_splits)
  have 1: "run_predictions example_predict [''bad'', ''P1'', ''none'', ''P2'']
     = Inr [example_prediction ''P1'', example_prediction ''P2'']"
    using run_predictions_error_iff [of example_predict "[''bad'', ''P1'', ''none'', ''P2'']"] s
    by simp
  have "\<exists>e. run_predictions example_predict [''bad'', ''none''] = Inl e"
    using run_predictions_error_iff [of example_predict "[''bad'', ''none'']"] n by blast
  then have 2: "run_predictions example_predict [''bad'', ''none''] = Inl ValueError"
    using run_predictions_error_iff [of example_predict "[''bad'', ''none'']"] by blast
  have 3: "predict_loop example_predict ([''P1''] @ ''bad'' # [''P2''])
       = predict_loop example_predict ([''P1''] @ [''P2''])"
    using run_predictions_error_iff [of example_predict _ "''bad''" "[''P1'']" "[''P2'']"] bad
    by blast
  have 4: "\<exists>out. predict_seasonal example_config ranked_players (Inr out)"
    using run_predictions_error_iff [of _ _ _ _ _ example_config ranked_players] r by blast
  show ?thesis
    by (rule conjI [OF 1 conjI [OF 2 conjI [OF 3 4]]])
qed

text \<open>
  C9. The sort puts any frame of predictions in descending order of
  \<^verbatim>\<open>predicted_season_fp\<close>, keeps its rows, and keeps the rows of equal
  \<^verbatim>\<open>predicted_season_fp\<close> in the order they had before the sort, whatever that order
  was. So the frame that a run returns is in descending order, and its rows of equal
  \<^verbatim>\<open>predicted_season_fp\<close> are in the order in which the loop produced them.
\<close>

theorem predictions_sorted_descending:
  "sorted_wrt (\<lambda>a b. predicted_season_fp a \<ge> predicted_season_fp b)
     (pl_sort_descending predicted_season_fp (predictions :: prediction list))
   \<and> mset (pl_sort_descending predicted_season_fp predictions) = mset predictions
   \<and> (\<forall>v. filter (\<lambda>p. predicted_season_fp p = v) (pl_sort_descending predicted_season_fp predictions)
            = filter (\<lambda>p. predicted_season_fp p = v) predictions)
   \<and> (predict_seasonal cfg seasonal_df (Inr out) \<longrightarrow>
        sorted_wrt (\<lambda>a b. predicted_season_fp a \<ge> predicted_season_fp b) out
        \<and> mset out = mset (predict_loop (predict_player_2026 cfg seasonal_df)
                             (eligible_players cfg seasonal_df))
        \<and> (\<forall>v. filter (\<lambda>p. predicted_season_fp p = v) out
                 = filter (\<lambda>p. predicted_season_fp p = v)
                     (predict_loop (predict_player_2026 cfg seasonal_df)
                        (eligible_players cfg seasonal_df))))"
proof -
  let ?ps = "predict_loop (predict_player_2026 cfg seasonal_df) (eligible_players cfg seasonal_df)"
  have 1: "sorted_wrt (\<lambda>a b. predicted_season_fp a \<ge> predicted_season_fp b)
     (pl_sort_descending predicted_season_fp xs)" for xs :: "prediction list"
    by (rule pl_sort_descending_sorted)
  have 2: "mset (pl_sort_descending predicted_season_fp xs) = mset xs" for xs :: "prediction list"
    by (rule pl_sort_descending_mset)
  have 3: "\<forall>v. filter (\<lambda>p. predicted_season_fp p = v) (pl_sort_descending predicted_season_fp xs)
            = filter (\<lambda>p. predicted_season_fp p = v) xs" for xs :: "prediction list"
    by (simp add: pl_sort_descending_stable)
  have 4: "predict_seasonal cfg seasonal_df (Inr out) \<longrightarrow>
        sorted_wrt (\<lambda>a b. predicted_season_fp a \<ge> predicted_season_fp b) out
        \<and> mset out = mset ?ps
        \<and> (\<forall>v. filter (\<lambda>p. predicted_season_fp p = v) out
                 = filter (\<lambda>p. predicted_season_fp p = v) ?ps)"
  proof
    assume "predict_seasonal cfg seasonal_df (Inr out)"
    then have out: "out = pl_sort_descending predicted_season_fp ?ps"
      by (simp add: predict_seasonal_Inr predict_loop_surviving)
    show "sorted_wrt (\<lambda>a b. predicted_season_fp a \<ge> predicted_season_fp b) out
        \<and> mset out = mset ?ps
        \<and> (\<forall>v. filter (\<lambda>p. predicted_season_fp p = v) out
                 = filter (\<lambda>p. predicted_season_fp p = v) ?ps)"
      unfolding out by (intro conjI 1 2 3)
  qed
  show ?thesis
    by (intro conjI 1 2 3 4)
qed

text \<open>
  P2 is predicted 250.49 points and P1 194.98: the frame returned has P2 first. Two
  players predicted 194.98 points each stay in the order of the loop, P1 before P2.
\<close>

theorem predictions_sorted_descending_witness:
  "predict_seasonal example_config ranked_players (Inr [example_prediction_P2, example_prediction ''P1''])
   \<and> sorted_wrt (\<lambda>a b. predicted_season_fp a \<ge> predicted_season_fp b)
        [example_prediction_P2, example_prediction ''P1'']
   \<and> predict_seasonal example_config two_players
        (Inr [example_prediction ''P1'', example_prediction ''P2''])
   \<and> filter (\<lambda>p. predicted_season_fp p = 194.98) [example_prediction ''P1'', example_prediction ''P2'']
       = filter (\<lambda>p. predicted_season_fp p = 194.98)
           (predict_loop (predict_player_2026 example_config two_players)
              (eligible_players example_config two_players))"
proof -
  have r: "predict_seasonal example_config ranked_players
             (Inr [example_prediction_P2, example_prediction ''P1''])"
    by (simp add: predict_seasonal_def ranked_players_run pl_sort_descending_def
        example_prediction_def example_prediction_P2_def)
  have t: "predict_seasonal example_config two_players
             (Inr [example_prediction ''P1'', example_prediction ''P2''])"
    by (simp add: predict_seasonal_def two_players_run pl_sort_descending_def
        example_prediction_def)
  note rs = predictions_sorted_descending [of _ example_config ranked_players
      "[example_prediction_P2, example_prediction ''P1'']", THEN conjunct2, THEN conjunct2,
      THEN conjunct2, THEN mp, OF r]
  note ts = predictions_sorted_descending [of _ example_config two_players
      "[example_prediction ''P1'', example_prediction ''P2'']", THEN conjunct2, THEN conjunct2,
      THEN conjunct2, THEN mp, OF t]
  from ts have f: "filter (\<lambda>p. predicted_season_fp p = 194.98)
        [example_prediction ''P1'', example_prediction ''P2'']
       = filter (\<lambda>p. predicted_season_fp p = 194.98)
           (predict_loop (predict_player_2026 example_config two_players)
              (eligible_players example_config two_players))"
    by blast
  show ?thesis
    by (rule conjI [OF r conjI [OF conjunct1 [OF rs] conjI [OF t f]]])
qed

section \<open>Persistence: properties\<close>

text \<open>
  C5 fails on the code: for a format that is neither \<^verbatim>\<open>parquet\<close> nor \<^verbatim>\<open>csv\<close>, here
  \<^verbatim>\<open>xml\<close>, \<^verbatim>\<open>save_predictions\<close> raises nothing; it creates the output directory, writes
  the JSON serialisation to \<^verbatim>\<open>predictions_2026.xml\<close> and returns that path.
\<close>

theorem save_predictions_unknown_format:
  "save_predictions (cfg\<lparr>output_format := Some ''xml''\<rparr>) predictions_df fs
     = (fs @ [Mkdir (output_directory cfg),
              WriteJson (output_directory cfg @ ''/predictions_2026.xml'') predictions_df],
        Inr (output_directory cfg @ ''/predictions_2026.xml''))"
  by (simp add: save_predictions_def get_or_def Let_def)

end
